theory Spec2Isabelle
  imports Main "HOL-Library.Word" "HOL-Library.AList"
begin

section \<open>JavaScript values used by the model\<close>

text \<open>
  Identifiers, environment-variable names, argument values and launcher strings are
  modelled as \<^typ>\<open>string\<close>. A property that holds a value of type \<open>'a\<close>, holds
  \<open>null\<close>, or is absent (\<open>undefined\<close>) is an \<open>'a nullable\<close>. Booleans stand for the
  truthiness of the flag the source tests.
\<close>

datatype 'a nullable = Undefined | Null | Defined 'a

definition truthy :: "string nullable \<Rightarrow> bool" where
  "truthy v = (case v of Defined s \<Rightarrow> s \<noteq> [] | _ \<Rightarrow> False)"

text \<open>The operator \<open>a || b\<close> on two possibly absent strings, and with a string literal on the right.\<close>

definition js_or :: "string nullable \<Rightarrow> string nullable \<Rightarrow> string nullable" where
  "js_or a b = (if truthy a then a else b)"

definition or_else :: "string nullable \<Rightarrow> string \<Rightarrow> string" where
  "or_else a b = (case a of Defined s \<Rightarrow> if s = [] then b else s | _ \<Rightarrow> b)"

text \<open>\<open>String.prototype.startsWith\<close>, \<open>includes\<close> and \<open>replace\<close> with a string pattern
  (which replaces the first occurrence only).\<close>

fun startsWith :: "string \<Rightarrow> string \<Rightarrow> bool" where
  "startsWith s [] = True"
| "startsWith [] (p # ps) = False"
| "startsWith (c # cs) (p # ps) = (c = p \<and> startsWith cs ps)"

fun str_includes :: "string \<Rightarrow> string \<Rightarrow> bool" where
  "str_includes [] p = (p = [])"
| "str_includes (c # cs) p = (startsWith (c # cs) p \<or> str_includes cs p)"

fun replace_first :: "string \<Rightarrow> string \<Rightarrow> string \<Rightarrow> string" where
  "replace_first [] p r = (if p = [] then r else [])"
| "replace_first (c # cs) p r =
     (if startsWith (c # cs) p then r @ drop (length p) (c # cs)
      else c # replace_first cs p r)"

text \<open>
  \<open>toUpperCase\<close> on the letters \<open>a\<close> to \<open>z\<close>. The source only searches the result for
  the words \<open>TOKEN\<close> and \<open>KEY\<close>, and no other 8-bit character upper-cases to one of
  their letters.
\<close>

definition upper_char :: "char \<Rightarrow> char" where
  "upper_char c =
     (if 97 \<le> (of_char c :: nat) \<and> (of_char c :: nat) \<le> 122
      then char_of ((of_char c :: nat) - 32) else c)"

definition toUpperCase :: "string \<Rightarrow> string" where
  "toUpperCase s = map upper_char s"

text \<open>
  An exception is a value of type \<open>error\<close>; \<open>Error\<close> carries the message of the source.
\<close>

datatype error = Error string | RangeError | InvalidCharacterError | TypeError

text \<open>
  A plain object (an object literal, or an object that \<open>JSON.parse\<close> built) whose
  values are strings is the association list of its own properties, in the order of their
  creation (nothing below depends on that order); its prototype is \<open>Object.prototype\<close>.
  Reading \<open>obj[k]\<close> gives the own property when there is one, and otherwise what
  \<open>Object.prototype\<close> holds under \<open>k\<close>: a built-in function, or, for \<open>__proto__\<close>, the
  prototype itself. Writing a string to \<open>obj[k]\<close> replaces the value of an own property
  and creates a new one otherwise, except under the key \<open>__proto__\<close>, where the setter of
  \<open>Object.prototype\<close> takes the string and ignores it. \<open>delete obj[k]\<close> removes an own
  property and does nothing else.
\<close>

definition object_prototype_keys :: "string list" where
  "object_prototype_keys =
     [''constructor'', ''__defineGetter__'', ''__defineSetter__'', ''hasOwnProperty'',
      ''__lookupGetter__'', ''__lookupSetter__'', ''isPrototypeOf'', ''propertyIsEnumerable'',
      ''toString'', ''valueOf'', ''__proto__'', ''toLocaleString'']"

datatype 'v property = Own 'v | Inherited | Missing

definition js_get :: "(string \<times> 'v) list \<Rightarrow> string \<Rightarrow> 'v property" where
  "js_get obj k =
     (case map_of obj k of
        Some v \<Rightarrow> Own v
      | None \<Rightarrow> if k \<in> set object_prototype_keys then Inherited else Missing)"

definition js_set :: "(string \<times> string) list \<Rightarrow> string \<Rightarrow> string \<Rightarrow> (string \<times> string) list" where
  "js_set obj k v =
     (if k = ''__proto__'' \<and> map_of obj k = None then obj else AList.update k v obj)"

text \<open>Truthiness of what a read of such an object gives.\<close>

fun prop_truthy :: "string property \<Rightarrow> bool" where
  "prop_truthy (Own s) = (s \<noteq> [])"
| "prop_truthy Inherited = True"
| "prop_truthy Missing = False"

text \<open>A value that is a string or a built-in of \<open>Object.prototype\<close>, named by its key.\<close>

datatype jsval = VString string | VBuiltin string

section \<open>Package configuration synthesis (serverUtils.js)\<close>

record envVar =
  ev_name :: string
  ev_is_required :: bool
  ev_is_secret :: bool
  ev_default :: "string nullable"

record packageArg =
  arg_id :: int
  arg_type :: string
  arg_name :: string
  arg_value :: "string nullable"

text \<open>The two arrays of a package are tested for truthiness only, except that
  \<open>buildAuthHeaders\<close> tells an absent \<open>environment_variables\<close> from \<open>null\<close>; for
  \<open>package_arguments\<close>, \<open>None\<close> is \<open>null\<close> or \<open>undefined\<close>.\<close>

record package =
  registry_name :: string
  package_name :: "string nullable"
  pkg_name :: "string nullable"
  runtime_hint :: "string nullable"
  environment_variables :: "envVar list nullable"
  package_arguments :: "packageArg list option"

text \<open>
  The launcher configuration: \<open>{command, args, env}\<close> for package-manager and container
  packages, \<open>{type, url, headers?}\<close> for remote ones. An element of \<open>args\<close> is the argument
  value or package name that the source pushes, which can be \<open>null\<close> or \<open>undefined\<close>. The
  command and the URL come from lookups in object literals and can be built-ins of
  \<open>Object.prototype\<close>. Of the headers object its own properties are kept.
\<close>

datatype config =
  Launch (cfg_command: jsval) (cfg_args: "string nullable list")
         (cfg_env: "(string \<times> string) list")
| Remote (cfg_type: string) (cfg_url: jsval)
         (cfg_headers: "(string \<times> string nullable) list option")

definition placeholder :: "string \<Rightarrow> string" where
  "placeholder n = ''${'' @ n @ ''}''"

definition env_step :: "(string \<times> string) list \<Rightarrow> envVar \<Rightarrow> (string \<times> string) list" where
  "env_step env v =
     (if ev_is_required v then
        js_set env (ev_name v)
          (if ev_is_secret v then placeholder (ev_name v)
           else or_else (ev_default v) (placeholder (ev_name v)))
      else if truthy (ev_default v) then
        js_set env (ev_name v) (or_else (ev_default v) [])
      else env)"

definition buildPackageEnv :: "envVar list nullable \<Rightarrow> (string \<times> string) list" where
  "buildPackageEnv envVars =
     (case envVars of Defined vs \<Rightarrow> foldl env_step [] vs | _ \<Rightarrow> [])"

definition runtimeMap :: "(string \<times> string) list" where
  "runtimeMap = [(''npm'', ''npx''), (''pypi'', ''uvx''), (''docker'', ''docker''),
                 (''nuget'', ''dnx'')]"

definition getDefaultRuntime :: "string \<Rightarrow> jsval" where
  "getDefaultRuntime registryName =
     (case js_get runtimeMap registryName of
        Own s \<Rightarrow> VString (if s = [] then ''npx'' else s)
      | Inherited \<Rightarrow> VBuiltin registryName
      | Missing \<Rightarrow> VString ''npx'')"

definition knownUrls :: "(string \<times> string) list" where
  "knownUrls = [(''github'', ''https://api.githubcopilot.com/mcp/''),
                (''https://api.githubcopilot.com/mcp/'', ''https://api.githubcopilot.com/mcp/'')]"

text \<open>A property key is a string: \<open>undefined\<close> and \<open>null\<close> are looked up under their
  names. The result \<open>None\<close> is \<open>null\<close>.\<close>

definition property_key :: "string nullable \<Rightarrow> string" where
  "property_key v =
     (case v of Undefined \<Rightarrow> ''undefined'' | Null \<Rightarrow> ''null'' | Defined s \<Rightarrow> s)"

definition getKnownRemoteURL :: "string nullable \<Rightarrow> jsval option" where
  "getKnownRemoteURL packageName =
     (case js_get knownUrls (property_key packageName) of
        Own s \<Rightarrow> if s = [] then None else Some (VString s)
      | Inherited \<Rightarrow> Some (VBuiltin (property_key packageName))
      | Missing \<Rightarrow> None)"

definition docker_tokens :: "string nullable list" where
  "docker_tokens = [Defined ''run'', Defined ''-i'', Defined ''--rm'', Defined ''-e'']"

definition arg_kept :: "packageArg \<Rightarrow> bool" where
  "arg_kept a = (arg_type a = ''named'' \<or>
                 (arg_type a = ''positional'' \<and> arg_value a \<notin> set docker_tokens))"

definition arg_render :: "packageArg \<Rightarrow> string nullable list" where
  "arg_render a =
     (if arg_type a = ''named'' then
        Defined (arg_name a) # (if truthy (arg_value a) then [arg_value a] else [])
      else if arg_type a = ''positional'' then [arg_value a]
      else [])"

definition buildPackageArgs :: "package \<Rightarrow> string nullable list" where
  "buildPackageArgs pkg =
     (let args0 = (case package_arguments pkg of None \<Rightarrow> []
                   | Some pas \<Rightarrow> concat (map arg_render (filter arg_kept pas)));
          packageName = js_or (package_name pkg) (pkg_name pkg);
          args1 = (if truthy packageName \<and> packageName \<notin> set args0
                   then args0 @ [packageName] else args0)
      in if args1 = [] then [packageName] else args1)"

definition docker_env_flags :: "envVar \<Rightarrow> string nullable list" where
  "docker_env_flags v =
     (if ev_is_required v \<or> ev_is_secret v then [Defined ''-e'', Defined (ev_name v)] else [])"

definition buildDockerArgs :: "package \<Rightarrow> string nullable list" where
  "buildDockerArgs pkg =
     (let positionalArgs =
            (case package_arguments pkg of None \<Rightarrow> []
             | Some pas \<Rightarrow>
                 map arg_value (sort_key arg_id (filter (\<lambda>a. arg_type a = ''positional'') pas)))
      in if positionalArgs \<noteq> [] then positionalArgs
         else [Defined ''run'', Defined ''-i'', Defined ''--rm'']
              @ (case environment_variables pkg of
                   Defined vs \<Rightarrow> concat (map docker_env_flags vs)
                 | _ \<Rightarrow> [])
              @ [package_name pkg])"

text \<open>
  The headers object holds strings, \<open>null\<close> and \<open>undefined\<close>. Writing \<open>null\<close> to its key
  \<open>__proto__\<close> removes its prototype, after which \<open>__proto__\<close> is a key like any other;
  writing a string or \<open>undefined\<close> to \<open>__proto__\<close> while the prototype is there does
  nothing.
\<close>

record headersObj =
  h_own :: "(string \<times> string nullable) list"
  h_bare :: bool

definition header_set :: "headersObj \<Rightarrow> string \<Rightarrow> string nullable \<Rightarrow> headersObj" where
  "header_set h k v =
     (if k = ''__proto__'' \<and> \<not> h_bare h \<and> map_of (h_own h) k = None
      then (if v = Null then h\<lparr>h_bare := True\<rparr> else h)
      else h\<lparr>h_own := AList.update k v (h_own h)\<rparr>)"

text \<open>
  Stored header arguments: a placeholder-looking value is replaced by a reference to the
  first environment variable whose name overlaps with it. The search for that variable
  raises \<open>TypeError\<close> when \<open>envVars\<close> is \<open>null\<close> (here \<open>None\<close>).
\<close>

definition looks_like_placeholder :: "string \<Rightarrow> bool" where
  "looks_like_placeholder v =
     (str_includes v ''YOUR_'' \<or> str_includes v ''API_KEY'' \<or> str_includes v ''TOKEN'')"

definition header_matches :: "string \<Rightarrow> envVar \<Rightarrow> bool" where
  "header_matches v e =
     (ev_name e = v \<or> str_includes (ev_name e) (replace_first v ''YOUR_'' [])
      \<or> str_includes v (ev_name e))"

definition header_value :: "envVar list option \<Rightarrow> packageArg \<Rightarrow> error + string nullable" where
  "header_value envVars a =
     (case arg_value a of
        Defined v \<Rightarrow>
          if v \<noteq> [] \<and> looks_like_placeholder v then
            (case envVars of
               None \<Rightarrow> Inl TypeError
             | Some vs \<Rightarrow>
                 (case find (header_matches v) vs of
                    None \<Rightarrow> Inr (Defined v)
                  | Some e \<Rightarrow> Inr (Defined (placeholder (ev_name e)))))
          else Inr (Defined v)
      | absent \<Rightarrow> Inr absent)"

fun stored_headers ::
  "envVar list option \<Rightarrow> headersObj \<Rightarrow> packageArg list \<Rightarrow> error + headersObj" where
  "stored_headers envVars headers [] = Inr headers"
| "stored_headers envVars headers (a # headerArgs) =
     (case header_value envVars a of
        Inl e \<Rightarrow> Inl e
      | Inr v \<Rightarrow> stored_headers envVars (header_set headers (arg_name a) v) headerArgs)"

definition infers_bearer :: "envVar \<Rightarrow> bool" where
  "infers_bearer e =
     (ev_is_secret e \<and> ev_name e \<noteq> [] \<and>
      (str_includes (toUpperCase (ev_name e)) ''TOKEN''
       \<or> str_includes (toUpperCase (ev_name e)) ''KEY''))"

definition infer_step :: "headersObj \<Rightarrow> envVar \<Rightarrow> headersObj" where
  "infer_step h e =
     (if infers_bearer e
      then header_set h ''Authorization'' (Defined (''Bearer '' @ placeholder (ev_name e)))
      else h)"

text \<open>The default \<open>[]\<close> of the parameter \<open>envVars\<close> stands in for \<open>undefined\<close>, not for
  \<open>null\<close>.\<close>

definition buildAuthHeaders ::
  "envVar list nullable \<Rightarrow> packageArg list option \<Rightarrow> error + headersObj" where
  "buildAuthHeaders envVars packageArgs =
     (let vs = (case envVars of Undefined \<Rightarrow> Some [] | Null \<Rightarrow> None | Defined es \<Rightarrow> Some es);
          headerArgs = filter (\<lambda>a. arg_type a = ''header'')
                         (case packageArgs of None \<Rightarrow> [] | Some pas \<Rightarrow> pas)
      in case stored_headers vs \<lparr>h_own = [], h_bare = False\<rparr> headerArgs of
           Inl e \<Rightarrow> Inl e
         | Inr headers \<Rightarrow>
             (case vs of
                Some es \<Rightarrow>
                  if h_own headers = [] then Inr (foldl infer_step headers es) else Inr headers
              | None \<Rightarrow> Inr headers))"

definition buildRemotePackageConfig :: "package \<Rightarrow> error + config" where
  "buildRemotePackageConfig pkg =
     (let pas = (case package_arguments pkg of None \<Rightarrow> [] | Some pas \<Rightarrow> pas);
          urlArg = find (\<lambda>a. arg_type a = ''url'' \<and> arg_name a = ''endpoint'') pas;
          urlValue = (case urlArg of None \<Rightarrow> Undefined | Some a \<Rightarrow> arg_value a);
          url = (if truthy urlValue then VString (or_else urlValue [])
                 else case getKnownRemoteURL (package_name pkg) of
                        Some u \<Rightarrow> u
                      | None \<Rightarrow> VString ''https://example.com/mcp'');
          ty = or_else (case find (\<lambda>a. arg_name a = ''type'') pas of
                          None \<Rightarrow> Undefined | Some a \<Rightarrow> arg_value a) ''http''
      in case buildAuthHeaders (environment_variables pkg) (package_arguments pkg) of
           Inl e \<Rightarrow> Inl e
         | Inr headers \<Rightarrow>
             Inr (Remote ty url (if h_own headers \<noteq> [] then Some (h_own headers) else None)))"

definition buildDockerPackageConfig :: "package \<Rightarrow> config" where
  "buildDockerPackageConfig pkg =
     Launch (VString ''docker'') (buildDockerArgs pkg)
       (buildPackageEnv (environment_variables pkg))"

definition buildPackageConfig :: "package \<Rightarrow> error + config" where
  "buildPackageConfig pkg =
     (if registry_name pkg = ''remote'' then buildRemotePackageConfig pkg
      else if registry_name pkg = ''docker'' then Inr (buildDockerPackageConfig pkg)
      else Inr (Launch (if truthy (runtime_hint pkg) then VString (or_else (runtime_hint pkg) [])
                        else getDefaultRuntime (registry_name pkg))
                       (buildPackageArgs pkg)
                       (buildPackageEnv (environment_variables pkg))))"

section \<open>Bundle and connection stores\<close>

text \<open>
  Free text (bundle and connection names, descriptions) is a list of UTF-16 code units,
  which is what \<open>substring\<close>, \<open>trim\<close> and \<open>TextEncoder\<close> work on. A clock reading
  (\<open>Date.now()\<close>, milliseconds since the epoch) is passed to every operation that
  takes one; \<open>created\<close> and \<open>updated\<close> hold that reading, of which the source stores
  the ISO rendering. A field of a bundle that the source only tests for truthiness before it
  uses it is an \<open>option\<close>, with \<open>None\<close> for \<open>null\<close> and \<open>undefined\<close>.
\<close>

type_synonym ustring = "16 word list"

definition is_js_space :: "16 word \<Rightarrow> bool" where
  "is_js_space c =
     (c \<in> set [0x9, 0xA, 0xB, 0xC, 0xD, 0x20, 0xA0, 0x1680, 0x2028, 0x2029, 0x202F,
               0x205F, 0x3000, 0xFEFF]
      \<or> (0x2000 \<le> c \<and> c \<le> 0x200A))"

definition trim :: "ustring \<Rightarrow> ustring" where
  "trim s = rev (dropWhile is_js_space (rev (dropWhile is_js_space s)))"

text \<open>\<open>Number.prototype.toString()\<close> of a non-negative integer.\<close>

fun dec :: "nat \<Rightarrow> string" where
  "dec n = (if n < 10 then [''0123456789'' ! n] else dec (n div 10) @ [''0123456789'' ! (n mod 10)])"

declare dec.simps [simp del]

text \<open>A server entry is an id string (the old format) or an object (the new one).\<close>

datatype serverEntry =
  LegacyId string
| Entry (serverId: string) (packageIndex: int) (connectionId: "string option")

fun entry_matches :: "string \<Rightarrow> serverEntry \<Rightarrow> bool" where
  "entry_matches sid (LegacyId s) = (s = sid)"
| "entry_matches sid (Entry s p c) = (s = sid)"

text \<open>Truthiness of an entry: an object always is, a string when it is not empty.\<close>

fun entry_truthy :: "serverEntry \<Rightarrow> bool" where
  "entry_truthy (LegacyId s) = (s \<noteq> [])"
| "entry_truthy (Entry s p c) = True"

record Bundle =
  bundle_id :: string
  bundle_name :: "ustring option"
  bundle_description :: "ustring option"
  servers :: "serverEntry list option"
  serverConnections :: "(string \<times> string) list option"
  connections :: "string list option"
  created :: nat
  updated :: nat
  tags :: "string list"

record Connection =
  conn_id :: string
  conn_name :: ustring
  conn_serverId :: string
  conn_packageId :: string
  credentials :: "(string \<times> string) list"
  conn_created :: nat
  conn_updated :: nat

fun findIndex :: "('a \<Rightarrow> bool) \<Rightarrow> 'a list \<Rightarrow> nat option" where
  "findIndex P [] = None"
| "findIndex P (x # xs) =
     (if P x then Some 0 else case findIndex P xs of None \<Rightarrow> None | Some i \<Rightarrow> Some (Suc i))"

definition splice1 :: "nat \<Rightarrow> 'a list \<Rightarrow> 'a list" where
  "splice1 i xs = take i xs @ drop (Suc i) xs"

definition getById :: "Bundle list \<Rightarrow> string \<Rightarrow> Bundle option" where
  "getById items bundleId = find (\<lambda>b. bundle_id b = bundleId) items"

text \<open>The object that \<open>getById\<close> returns is mutated in place: the first bundle of the
  list with that id is replaced by its new value.\<close>

fun store_bundle :: "Bundle \<Rightarrow> Bundle list \<Rightarrow> Bundle list" where
  "store_bundle b [] = []"
| "store_bundle b (x # xs) =
     (if bundle_id x = bundle_id b then b # xs else x # store_bundle b xs)"

definition create :: "nat \<Rightarrow> Bundle list \<Rightarrow> ustring \<Rightarrow> ustring \<Rightarrow> Bundle list" where
  "create now items name description =
     items @ [\<lparr>bundle_id = dec now, bundle_name = Some (trim name),
               bundle_description = Some (trim description), servers = Some [],
               serverConnections = Some [], connections = None,
               created = now, updated = now, tags = []\<rparr>]"

definition addServer ::
  "nat \<Rightarrow> Bundle list \<Rightarrow> string \<Rightarrow> string \<Rightarrow> int \<Rightarrow> error + Bundle list" where
  "addServer now items bundleId sid pidx =
     (case getById items bundleId of
        None \<Rightarrow> Inl (Error ''Bundle not found'')
      | Some bundle \<Rightarrow>
          let es = (case servers bundle of None \<Rightarrow> [] | Some es \<Rightarrow> es);
              existing = find (entry_matches sid) es
          in if \<not> (case existing of None \<Rightarrow> False | Some e \<Rightarrow> entry_truthy e)
             then Inr (store_bundle (bundle\<lparr>servers := Some (es @ [Entry sid pidx None]),
                                             updated := now\<rparr>) items)
             else Inr (store_bundle (bundle\<lparr>servers := Some es\<rparr>) items))"

text \<open>The test \<open>bundle.serverConnections && bundle.serverConnections[serverId]\<close>.\<close>

definition conn_truthy :: "(string \<times> string) list option \<Rightarrow> string \<Rightarrow> bool" where
  "conn_truthy m sid =
     (case m of None \<Rightarrow> False | Some al \<Rightarrow> prop_truthy (js_get al sid))"

definition removeServer ::
  "nat \<Rightarrow> Bundle list \<Rightarrow> string \<Rightarrow> string \<Rightarrow> error + Bundle list" where
  "removeServer now items bundleId sid =
     (case getById items bundleId of
        None \<Rightarrow> Inl (Error ''Bundle not found'')
      | Some bundle \<Rightarrow>
          (case servers bundle of
             None \<Rightarrow> Inr items
           | Some es \<Rightarrow>
               (case findIndex (entry_matches sid) es of
                  None \<Rightarrow> Inr items
                | Some i \<Rightarrow>
                    Inr (store_bundle
                      (bundle\<lparr>servers := Some (splice1 i es),
                              serverConnections :=
                                (if conn_truthy (serverConnections bundle) sid
                                 then map_option (AList.delete sid) (serverConnections bundle)
                                 else serverConnections bundle),
                              updated := now\<rparr>) items))))"

definition attachConnection ::
  "nat \<Rightarrow> Bundle list \<Rightarrow> string \<Rightarrow> string \<Rightarrow> string \<Rightarrow> error + Bundle list" where
  "attachConnection now items bundleId sid cid =
     (case getById items bundleId of
        None \<Rightarrow> Inl (Error ''Bundle not found'')
      | Some bundle \<Rightarrow>
          let serverExists = (case servers bundle of None \<Rightarrow> False
                              | Some es \<Rightarrow> list_ex (entry_matches sid) es)
          in if \<not> serverExists then Inl (Error ''Server not in bundle'')
             else Inr (store_bundle
                    (bundle\<lparr>serverConnections :=
                              Some (js_set
                                      (case serverConnections bundle of None \<Rightarrow> [] | Some al \<Rightarrow> al)
                                      sid cid),
                            updated := now\<rparr>) items))"

definition detachConnection ::
  "nat \<Rightarrow> Bundle list \<Rightarrow> string \<Rightarrow> string \<Rightarrow> error + Bundle list" where
  "detachConnection now items bundleId sid =
     (case getById items bundleId of
        None \<Rightarrow> Inl (Error ''Bundle not found'')
      | Some bundle \<Rightarrow>
          if conn_truthy (serverConnections bundle) sid
          then Inr (store_bundle
                 (bundle\<lparr>serverConnections := map_option (AList.delete sid) (serverConnections bundle),
                         updated := now\<rparr>) items)
          else Inr items)"

text \<open>\<open>get\<close> of the connection registry returns \<open>undefined\<close> when no connection has
  the id.\<close>

definition conn_get :: "Connection list \<Rightarrow> string \<Rightarrow> Connection nullable" where
  "conn_get citems cid =
     (case find (\<lambda>c. conn_id c = cid) citems of None \<Rightarrow> Undefined | Some c \<Rightarrow> Defined c)"

text \<open>When the lookup gives a built-in of \<open>Object.prototype\<close>, the registry is asked for
  a connection whose id is that built-in, and has none.\<close>

definition getServerConnection ::
  "Connection list \<Rightarrow> Bundle list \<Rightarrow> string \<Rightarrow> string \<Rightarrow> Connection nullable" where
  "getServerConnection citems items bundleId sid =
     (case getById items bundleId of
        None \<Rightarrow> Null
      | Some bundle \<Rightarrow>
          (case serverConnections bundle of
             None \<Rightarrow> Null
           | Some al \<Rightarrow>
               (case js_get al sid of
                  Own cid \<Rightarrow> if cid \<noteq> [] then conn_get citems cid else Null
                | Inherited \<Rightarrow> Undefined
                | Missing \<Rightarrow> Null)))"

text \<open>The truthiness of the result of \<open>hasServerConnection\<close>.\<close>

definition hasServerConnection :: "Bundle list \<Rightarrow> string \<Rightarrow> string \<Rightarrow> bool" where
  "hasServerConnection items bundleId sid =
     (case getById items bundleId of
        None \<Rightarrow> False
      | Some bundle \<Rightarrow> conn_truthy (serverConnections bundle) sid)"

text \<open>The connection registry. The random suffix of a new id is a parameter.\<close>

definition conn_create ::
  "nat \<Rightarrow> string \<Rightarrow> Connection list \<Rightarrow> ustring \<Rightarrow> string \<Rightarrow> string \<Rightarrow> (string \<times> string) list
     \<Rightarrow> Connection list" where
  "conn_create now rnd citems name sid pid creds =
     citems @ [\<lparr>conn_id = ''conn_'' @ dec now @ ''_'' @ rnd, conn_name = trim name,
                conn_serverId = sid, conn_packageId = pid, credentials = creds,
                conn_created = now, conn_updated = now\<rparr>]"

definition conn_delete :: "Bundle list \<Rightarrow> Connection list \<Rightarrow> string \<Rightarrow> error + Connection list" where
  "conn_delete items citems cid =
     (case findIndex (\<lambda>c. conn_id c = cid) citems of
        None \<Rightarrow> Inl (Error ''Connection not found'')
      | Some i \<Rightarrow>
          let isUsed = list_ex (\<lambda>bundle. case connections bundle of None \<Rightarrow> False
                                          | Some cs \<Rightarrow> cid \<in> set cs) items
          in if isUsed
             then Inl (Error ''Cannot delete connection - it is used in one or more bundles'')
             else Inr (splice1 i citems))"

text \<open>A bundle references a connection when it maps one of its servers to the
  connection's id.\<close>

definition references :: "Bundle \<Rightarrow> string \<Rightarrow> bool" where
  "references b cid =
     (case serverConnections b of None \<Rightarrow> False | Some al \<Rightarrow> cid \<in> snd ` set al)"

section \<open>Cache store\<close>

text \<open>
  An entry is the object \<open>{data, timestamp, maxAge}\<close> that \<open>set\<close> builds; \<open>maxAge\<close> is a
  number or \<open>null\<close> (here \<open>None\<close>: the default of the parameter, which also replaces
  \<open>undefined\<close>). The payload \<open>data\<close> is any value.
\<close>

record 'a cacheEntry =
  ce_data :: 'a
  ce_timestamp :: int
  ce_maxAge :: "int option"

text \<open>
  The object \<open>this.data\<close> is a plain object whose values are entries. Writing an entry to
  its key \<open>__proto__\<close>, when that is not an own property, makes the entry the prototype of
  the object: no own property is created, and the properties of the entry are then found
  under their names by every read that finds no own property.
\<close>

record 'a cache =
  c_own :: "(string \<times> 'a cacheEntry) list"
  c_proto :: "'a cacheEntry option"

text \<open>What \<open>this.data[key]\<close> gives: an entry, the payload of the prototype entry, one of its
  numbers, its \<open>null\<close>, a built-in of \<open>Object.prototype\<close>, or \<open>undefined\<close>.\<close>

datatype 'a slot =
  SEntry "'a cacheEntry" | SPayload 'a | SNumber int | SNull | SBuiltin | SUndefined

definition cache_lookup :: "'a cache \<Rightarrow> string \<Rightarrow> 'a slot" where
  "cache_lookup c key =
     (case map_of (c_own c) key of
        Some e \<Rightarrow> SEntry e
      | None \<Rightarrow>
          (case c_proto c of
             None \<Rightarrow> if key \<in> set object_prototype_keys then SBuiltin else SUndefined
           | Some p \<Rightarrow>
               if key = ''__proto__'' then SEntry p
               else if key = ''data'' then SPayload (ce_data p)
               else if key = ''timestamp'' then SNumber (ce_timestamp p)
               else if key = ''maxAge'' then
                 (case ce_maxAge p of None \<Rightarrow> SNull | Some m \<Rightarrow> SNumber m)
               else if key \<in> set object_prototype_keys then SBuiltin
               else SUndefined))"

definition cache_remove :: "'a cache \<Rightarrow> string \<Rightarrow> 'a cache" where
  "cache_remove c key = c\<lparr>c_own := AList.delete key (c_own c)\<rparr>"

definition cache_set :: "int \<Rightarrow> 'a cache \<Rightarrow> string \<Rightarrow> 'a \<Rightarrow> int option \<Rightarrow> 'a cache" where
  "cache_set now c key d maxAge =
     (let entry = \<lparr>ce_data = d, ce_timestamp = now, ce_maxAge = maxAge\<rparr>
      in if key = ''__proto__'' \<and> map_of (c_own c) key = None
         then c\<lparr>c_proto := Some entry\<rparr>
         else c\<lparr>c_own := AList.update key entry (c_own c)\<rparr>)"

text \<open>
  The result of \<open>get\<close>: \<open>null\<close>, \<open>undefined\<close>, the payload of an entry, or the property
  \<open>data\<close> of a payload that was found in the place of an entry. For such a payload the
  outcome of the two tests of \<open>get\<close> depends on what the payload is: whether it is truthy,
  and whether \<open>Date.now() - cached.timestamp > maxAge\<close> holds of it, are the parameters
  \<open>truthy_of\<close> and \<open>stale_of\<close>. A number or a built-in has no property \<open>timestamp\<close>, so
  that the difference is \<open>NaN\<close> and the comparison false, and no property \<open>data\<close>.
\<close>

datatype 'a cached = RNull | RUndefined | RData 'a | RDataOf 'a

definition cache_get ::
  "('a \<Rightarrow> bool) \<Rightarrow> (int \<Rightarrow> 'a \<Rightarrow> bool) \<Rightarrow> int \<Rightarrow> 'a cache \<Rightarrow> string
     \<Rightarrow> 'a cached \<times> 'a cache" where
  "cache_get truthy_of stale_of now c key =
     (let maxAge = 24 * 60 * 60 * 1000
      in case cache_lookup c key of
           SEntry cached \<Rightarrow>
             if now - ce_timestamp cached > maxAge then (RNull, cache_remove c key)
             else (RData (ce_data cached), c)
         | SPayload p \<Rightarrow>
             if \<not> truthy_of p then (RNull, c)
             else if stale_of now p then (RNull, cache_remove c key)
             else (RDataOf p, c)
         | SNumber n \<Rightarrow> if n = 0 then (RNull, c) else (RUndefined, c)
         | SNull \<Rightarrow> (RNull, c)
         | SBuiltin \<Rightarrow> (RUndefined, c)
         | SUndefined \<Rightarrow> (RNull, c))"

section \<open>Bundle share codec (packBundle, unpackBundle)\<close>

type_synonym byte = "8 word"

text \<open>
  \<open>TextEncoder.encode\<close>: a surrogate pair is one code point above \<open>0xFFFF\<close>, a lone
  surrogate is replaced by \<open>U+FFFD\<close>, and every code point is written in UTF-8.
\<close>

definition is_high_surrogate :: "16 word \<Rightarrow> bool" where
  "is_high_surrogate c = (0xD800 \<le> c \<and> c \<le> 0xDBFF)"

definition is_low_surrogate :: "16 word \<Rightarrow> bool" where
  "is_low_surrogate c = (0xDC00 \<le> c \<and> c \<le> 0xDFFF)"

definition scalar :: "16 word \<Rightarrow> nat" where
  "scalar c = (if is_high_surrogate c \<or> is_low_surrogate c then 0xFFFD else unat c)"

definition utf8 :: "nat \<Rightarrow> byte list" where
  "utf8 cp =
     (if cp < 0x80 then [of_nat cp]
      else if cp < 0x800 then [of_nat (0xC0 + cp div 64), of_nat (0x80 + cp mod 64)]
      else if cp < 0x10000 then
        [of_nat (0xE0 + cp div 4096), of_nat (0x80 + cp div 64 mod 64), of_nat (0x80 + cp mod 64)]
      else
        [of_nat (0xF0 + cp div 262144), of_nat (0x80 + cp div 4096 mod 64),
         of_nat (0x80 + cp div 64 mod 64), of_nat (0x80 + cp mod 64)])"

fun encode :: "ustring \<Rightarrow> byte list" where
  "encode [] = []"
| "encode [c] = utf8 (scalar c)"
| "encode (c # d # cs) =
     (if is_high_surrogate c \<and> is_low_surrogate d
      then utf8 (0x10000 + (unat c - 0xD800) * 1024 + (unat d - 0xDC00)) @ encode cs
      else utf8 (scalar c) @ encode (d # cs))"

text \<open>
  \<open>parseInt(s, 16)\<close>: leading white space, a sign and a prefix \<open>0x\<close> are skipped, the
  longest run of hexadecimal digits is read, and the result is \<open>NaN\<close> (here \<open>None\<close>) when
  there is no digit.
\<close>

definition is_ws_char :: "char \<Rightarrow> bool" where
  "is_ws_char c = ((of_char c :: nat) \<in> set [9, 10, 11, 12, 13, 32, 160])"

definition hexval :: "char \<Rightarrow> nat option" where
  "hexval c =
     map_of [(CHR ''0'', 0), (CHR ''1'', 1), (CHR ''2'', 2), (CHR ''3'', 3), (CHR ''4'', 4),
             (CHR ''5'', 5), (CHR ''6'', 6), (CHR ''7'', 7), (CHR ''8'', 8), (CHR ''9'', 9),
             (CHR ''a'', 10), (CHR ''b'', 11), (CHR ''c'', 12), (CHR ''d'', 13),
             (CHR ''e'', 14), (CHR ''f'', 15),
             (CHR ''A'', 10), (CHR ''B'', 11), (CHR ''C'', 12), (CHR ''D'', 13),
             (CHR ''E'', 14), (CHR ''F'', 15)] c"

fun digits16 :: "nat \<Rightarrow> string \<Rightarrow> nat" where
  "digits16 acc [] = acc"
| "digits16 acc (c # cs) =
     (case hexval c of None \<Rightarrow> acc | Some v \<Rightarrow> digits16 (16 * acc + v) cs)"

definition parseInt16 :: "string \<Rightarrow> int option" where
  "parseInt16 s =
     (let s1 = dropWhile is_ws_char s;
          neg = (case s1 of [] \<Rightarrow> False | c # r \<Rightarrow> c = CHR ''-'');
          s2 = (case s1 of [] \<Rightarrow> []
                | c # r \<Rightarrow> if c = CHR ''-'' \<or> c = CHR ''+'' then r else s1);
          s3 = (if startsWith s2 ''0x'' \<or> startsWith s2 ''0X'' then drop 2 s2 else s2)
      in case s3 of
           [] \<Rightarrow> None
         | c # r \<Rightarrow>
             (case hexval c of
                None \<Rightarrow> None
              | Some v \<Rightarrow> Some ((if neg then - 1 else 1) * int (digits16 0 s3))))"

text \<open>The conversion that \<open>DataView.setUint32\<close> applies to its argument: \<open>NaN\<close> is
  written as 0, any other integer modulo \<open>2^32\<close>.\<close>

definition toUint32 :: "int option \<Rightarrow> 32 word" where
  "toUint32 v = (case v of None \<Rightarrow> 0 | Some i \<Rightarrow> word_of_int i)"

text \<open>Big-endian layout of a 32-bit value, and the read of four bytes.\<close>

definition be32 :: "32 word \<Rightarrow> byte list" where
  "be32 w = [of_nat (unat w div 16777216), of_nat (unat w div 65536 mod 256),
             of_nat (unat w div 256 mod 256), of_nat (unat w mod 256)]"

definition getUint32 :: "byte \<Rightarrow> byte \<Rightarrow> byte \<Rightarrow> byte \<Rightarrow> 32 word" where
  "getUint32 a b c d = of_nat (unat a * 16777216 + unat b * 65536 + unat c * 256 + unat d)"

text \<open>\<open>n.toString(16)\<close> and \<open>padStart\<close>.\<close>

definition hexdigit :: "nat \<Rightarrow> char" where
  "hexdigit n = ''0123456789abcdef'' ! n"

fun toHex :: "nat \<Rightarrow> string" where
  "toHex n = (if n < 16 then [hexdigit n] else toHex (n div 16) @ [hexdigit (n mod 16)])"

declare toHex.simps [simp del]

definition padStart :: "nat \<Rightarrow> char \<Rightarrow> string \<Rightarrow> string" where
  "padStart n c s = replicate (n - length s) c @ s"

fun entry_id :: "serverEntry \<Rightarrow> string" where
  "entry_id (LegacyId s) = s"
| "entry_id (Entry s p c) = s"

text \<open>
  \<open>packBundle\<close> at clock reading \<open>now\<close> (milliseconds). Its body from the test of
  \<open>nameBytes.length\<close> on is \<open>packEncoded\<close>, a function of the encoded name and of the
  entries. The buffer of \<open>1 + 4 + nameBytes.length + 4 * serverIds.length\<close> bytes is filled
  from left to right without gaps, so it is the concatenation of the four parts;
  \<open>setUint8\<close> writes the length modulo 256.
\<close>

definition packEncoded :: "nat \<Rightarrow> byte list \<Rightarrow> serverEntry list \<Rightarrow> error + byte list" where
  "packEncoded now nameBytes entries =
     (if length nameBytes > 255
      then Inl (Error ''Bundle name too long after UTF-8 encoding'')
      else
        let serverIds = map (\<lambda>serverEntry. take 8 (entry_id serverEntry)) entries;
            sharedTime = now div 1000
        in Inr ([of_nat (length nameBytes)]
                @ be32 (toUint32 (Some (int sharedTime)))
                @ nameBytes
                @ concat (map (\<lambda>serverId. be32 (toUint32 (parseInt16 serverId))) serverIds)))"

definition packBundle :: "nat \<Rightarrow> Bundle \<Rightarrow> error + byte list" where
  "packBundle now bundle =
     (let name = take 50 (case bundle_name bundle of None \<Rightarrow> [] | Some n \<Rightarrow> n);
          nameBytes = encode name
      in packEncoded now nameBytes (case servers bundle of None \<Rightarrow> [] | Some es \<Rightarrow> es))"

text \<open>
  \<open>unpackBundle\<close>. A read past the end of the buffer raises \<open>RangeError\<close>. The name is
  kept as the bytes that \<open>TextDecoder\<close> is given.
\<close>

record unpacked =
  u_nameBytes :: "byte list"
  u_sharedTime :: "32 word"
  u_servers :: "string list"

fun read_servers :: "byte list \<Rightarrow> error + string list" where
  "read_servers [] = Inr []"
| "read_servers (a # b # c # d # rest) =
     (case read_servers rest of
        Inl e \<Rightarrow> Inl e
      | Inr ss \<Rightarrow> Inr (padStart 8 CHR ''0'' (toHex (unat (getUint32 a b c d))) # ss))"
| "read_servers bs = Inl RangeError"

definition unpackBundle :: "byte list \<Rightarrow> error + unpacked" where
  "unpackBundle binaryData =
     (case binaryData of
        n # a # b # c # d # rest \<Rightarrow>
          (let nameLength = unat n;
               sharedTime = getUint32 a b c d;
               nameBytes = take nameLength rest
           in case read_servers (drop nameLength rest) of
                Inl e \<Rightarrow> Inl e
              | Inr ss \<Rightarrow>
                  Inr \<lparr>u_nameBytes = nameBytes, u_sharedTime = sharedTime, u_servers = ss\<rparr>)
      | _ \<Rightarrow> Inl RangeError)"

text \<open>Ids that begin with eight lowercase hexadecimal characters, and the rendering of a
  number in a fixed number of hexadecimal digits.\<close>

definition lowerhex :: "char \<Rightarrow> bool" where
  "lowerhex c = (c \<in> set ''0123456789abcdef'')"

definition hex8_prefixed :: "string \<Rightarrow> bool" where
  "hex8_prefixed s = (8 \<le> length s \<and> list_all lowerhex (take 8 s))"

fun hexfix :: "nat \<Rightarrow> nat \<Rightarrow> string" where
  "hexfix 0 n = []"
| "hexfix (Suc k) n = hexfix k (n div 16) @ [hexdigit (n mod 16)]"

section \<open>Decoding a shared link (importFromURL)\<close>

text \<open>
  \<open>atob\<close> after the URL-safe characters have been put back: white space is dropped, one
  or two final \<open>=\<close> are removed when the length is a multiple of four, a length of one
  modulo four or a character outside the alphabet raises \<open>InvalidCharacterError\<close>, and
  every character contributes six bits. The result is a string of 8-bit code units.
\<close>

definition url_to_std :: "char \<Rightarrow> char" where
  "url_to_std c = (if c = CHR ''-'' then CHR ''+'' else if c = CHR ''_'' then CHR ''/'' else c)"

definition b64val :: "char \<Rightarrow> nat option" where
  "b64val c =
     (let n = (of_char c :: nat)
      in if 65 \<le> n \<and> n \<le> 90 then Some (n - 65)
         else if 97 \<le> n \<and> n \<le> 122 then Some (n - 71)
         else if 48 \<le> n \<and> n \<le> 57 then Some (n + 4)
         else if c = CHR ''+'' then Some 62
         else if c = CHR ''/'' then Some 63
         else None)"

fun b64_bytes :: "nat list \<Rightarrow> nat list" where
  "b64_bytes (a # b # c # d # r) =
     (a * 4 + b div 16) # ((b mod 16) * 16 + c div 4) # ((c mod 4) * 64 + d) # b64_bytes r"
| "b64_bytes [a, b, c] = [a * 4 + b div 16, (b mod 16) * 16 + c div 4]"
| "b64_bytes [a, b] = [a * 4 + b div 16]"
| "b64_bytes r = []"

definition strip_padding :: "string \<Rightarrow> string" where
  "strip_padding d =
     (if length d mod 4 = 0 then
        (if 2 \<le> length d \<and> drop (length d - 2) d = ''==''  then take (length d - 2) d
         else if 1 \<le> length d \<and> drop (length d - 1) d = ''='' then take (length d - 1) d
         else d)
      else d)"

definition atob :: "string \<Rightarrow> error + string" where
  "atob s =
     (let d = strip_padding
                (filter (\<lambda>c. (of_char c :: nat) \<notin> set [9, 10, 12, 13, 32]) s)
      in if length d mod 4 = 1 then Inl InvalidCharacterError
         else case those (map b64val d) of
                None \<Rightarrow> Inl InvalidCharacterError
              | Some vs \<Rightarrow> Inr (map char_of (b64_bytes vs)))"

text \<open>
  \<open>JSON.parse\<close>, as a machine that reads the text one character at a time. A number is
  kept as its lexeme, a string as its UTF-16 code units, an object as its members in the
  order of the text. The stack holds the arrays and objects that are still open, with
  their elements so far (the last one first) and, for an object, the key that waits for
  its value.
\<close>

datatype json =
  JNull | JBool bool | JNum string | JStr ustring | JArr "json list"
| JObj "(ustring \<times> json) list"

datatype frame = ArrF "json list" | ObjF "(ustring \<times> json) list" "ustring option"

datatype numst = NMinus | NZero | NInt | NDot | NFrac | NExp | NExpSign | NExpDig

datatype mode =
  Value | ArrStart | ObjStart | Key | Colon | After
| Str ustring | Esc ustring | Uni ustring nat nat
| Num string numst | Lit string json

type_synonym pstate = "mode \<times> frame list \<times> json option"

definition is_json_ws :: "char \<Rightarrow> bool" where
  "is_json_ws c = ((of_char c :: nat) \<in> set [9, 10, 13, 32])"

definition is_digit :: "char \<Rightarrow> bool" where
  "is_digit c = (c \<in> set ''0123456789'')"

text \<open>A finished value becomes the result, the next element of the open array, or the
  value of the waiting key.\<close>

fun finish :: "json \<Rightarrow> frame list \<Rightarrow> pstate option" where
  "finish v [] = Some (After, [], Some v)"
| "finish v (ArrF xs # fs) = Some (After, ArrF (v # xs) # fs, None)"
| "finish v (ObjF ms (Some k) # fs) = Some (After, ObjF ((k, v) # ms) None # fs, None)"
| "finish v (ObjF ms None # fs) = None"

fun str_done :: "ustring \<Rightarrow> frame list \<Rightarrow> pstate option" where
  "str_done s (ObjF ms None # fs) = Some (Colon, ObjF ms (Some s) # fs, None)"
| "str_done s fs = finish (JStr s) fs"

definition step_after :: "frame list \<Rightarrow> json option \<Rightarrow> char \<Rightarrow> pstate option" where
  "step_after fs d c =
     (if is_json_ws c then Some (After, fs, d)
      else if c = CHR '','' then
        (case fs of
           ArrF xs # r \<Rightarrow> Some (Value, fs, d)
         | ObjF ms None # r \<Rightarrow> Some (Key, fs, d)
         | _ \<Rightarrow> None)
      else if c = CHR '']'' then
        (case fs of ArrF xs # r \<Rightarrow> finish (JArr (rev xs)) r | _ \<Rightarrow> None)
      else if c = CHR ''}'' then
        (case fs of ObjF ms None # r \<Rightarrow> finish (JObj (rev ms)) r | _ \<Rightarrow> None)
      else None)"

definition step_value :: "frame list \<Rightarrow> char \<Rightarrow> pstate option" where
  "step_value fs c =
     (if is_json_ws c then Some (Value, fs, None)
      else if c = CHR 0x22 then Some (Str [], fs, None)
      else if c = CHR ''{'' then Some (ObjStart, ObjF [] None # fs, None)
      else if c = CHR ''['' then Some (ArrStart, ArrF [] # fs, None)
      else if c = CHR ''-'' then Some (Num [c] NMinus, fs, None)
      else if c = CHR ''0'' then Some (Num [c] NZero, fs, None)
      else if is_digit c then Some (Num [c] NInt, fs, None)
      else if c = CHR ''t'' then Some (Lit ''rue'' (JBool True), fs, None)
      else if c = CHR ''f'' then Some (Lit ''alse'' (JBool False), fs, None)
      else if c = CHR ''n'' then Some (Lit ''ull'' JNull, fs, None)
      else None)"

definition is_exp :: "char \<Rightarrow> bool" where
  "is_exp c = (c = CHR ''e'' \<or> c = CHR ''E'')"

fun num_next :: "numst \<Rightarrow> char \<Rightarrow> numst option" where
  "num_next NMinus c =
     (if c = CHR ''0'' then Some NZero else if is_digit c then Some NInt else None)"
| "num_next NZero c =
     (if c = CHR ''.'' then Some NDot else if is_exp c then Some NExp else None)"
| "num_next NInt c =
     (if is_digit c then Some NInt else if c = CHR ''.'' then Some NDot
      else if is_exp c then Some NExp else None)"
| "num_next NDot c = (if is_digit c then Some NFrac else None)"
| "num_next NFrac c =
     (if is_digit c then Some NFrac else if is_exp c then Some NExp else None)"
| "num_next NExp c =
     (if c = CHR ''+'' \<or> c = CHR ''-'' then Some NExpSign
      else if is_digit c then Some NExpDig else None)"
| "num_next NExpSign c = (if is_digit c then Some NExpDig else None)"
| "num_next NExpDig c = (if is_digit c then Some NExpDig else None)"

fun num_accepting :: "numst \<Rightarrow> bool" where
  "num_accepting NZero = True"
| "num_accepting NInt = True"
| "num_accepting NFrac = True"
| "num_accepting NExpDig = True"
| "num_accepting ns = False"

definition escape_unit :: "char \<Rightarrow> 16 word option" where
  "escape_unit c =
     map_of [(CHR 0x22, 0x22), (CHR 0x5C, 0x5C), (CHR ''/'', 0x2F), (CHR ''b'', 0x08),
             (CHR ''f'', 0x0C), (CHR ''n'', 0x0A), (CHR ''r'', 0x0D), (CHR ''t'', 0x09)] c"

fun step :: "pstate \<Rightarrow> char \<Rightarrow> pstate option" where
  "step (Value, fs, d) c = step_value fs c"
| "step (ArrStart, fs, d) c =
     (if is_json_ws c then Some (ArrStart, fs, d)
      else if c = CHR '']'' then finish (JArr []) (tl fs)
      else step_value fs c)"
| "step (ObjStart, fs, d) c =
     (if is_json_ws c then Some (ObjStart, fs, d)
      else if c = CHR ''}'' then finish (JObj []) (tl fs)
      else if c = CHR 0x22 then Some (Str [], fs, None)
      else None)"
| "step (Key, fs, d) c =
     (if is_json_ws c then Some (Key, fs, d)
      else if c = CHR 0x22 then Some (Str [], fs, None)
      else None)"
| "step (Colon, fs, d) c =
     (if is_json_ws c then Some (Colon, fs, d)
      else if c = CHR '':'' then Some (Value, fs, None)
      else None)"
| "step (After, fs, d) c = step_after fs d c"
| "step (Str acc, fs, d) c =
     (if c = CHR 0x22 then str_done (rev acc) fs
      else if c = CHR 0x5C then Some (Esc acc, fs, None)
      else if (of_char c :: nat) < 32 then None
      else Some (Str (of_nat (of_char c) # acc), fs, None))"
| "step (Esc acc, fs, d) c =
     (if c = CHR ''u'' then Some (Uni acc 4 0, fs, None)
      else case escape_unit c of
             None \<Rightarrow> None
           | Some w \<Rightarrow> Some (Str (w # acc), fs, None))"
| "step (Uni acc k v, fs, d) c =
     (case hexval c of
        None \<Rightarrow> None
      | Some h \<Rightarrow>
          if k \<le> 1 then Some (Str (of_nat (16 * v + h) # acc), fs, None)
          else Some (Uni acc (k - 1) (16 * v + h), fs, None))"
| "step (Num lx ns, fs, d) c =
     (case num_next ns c of
        Some ns' \<Rightarrow> Some (Num (c # lx) ns', fs, None)
      | None \<Rightarrow>
          if num_accepting ns then
            (case finish (JNum (rev lx)) fs of
               None \<Rightarrow> None
             | Some (m, fs', d') \<Rightarrow> step_after fs' d' c)
          else None)"
| "step (Lit rest v, fs, d) c =
     (case rest of
        [] \<Rightarrow> None
      | x # xs \<Rightarrow>
          if c \<noteq> x then None
          else if xs = [] then finish v fs
          else Some (Lit xs v, fs, None))"

fun run :: "pstate \<Rightarrow> string \<Rightarrow> pstate option" where
  "run st [] = Some st"
| "run st (c # cs) = (case step st c of None \<Rightarrow> None | Some st' \<Rightarrow> run st' cs)"

definition JSON_parse :: "string \<Rightarrow> json option" where
  "JSON_parse text =
     (case run (Value, [], None) text of
        Some (After, [], Some v) \<Rightarrow> Some v
      | Some (Num lx ns, [], d) \<Rightarrow> if num_accepting ns then Some (JNum (rev lx)) else None
      | _ \<Rightarrow> None)"

text \<open>
  The first part of \<open>importFromURL\<close>, up to the value of \<open>sharedBundle\<close>: the decoded
  text is given to \<open>JSON.parse\<close>, and when that raises, its code units are unpacked as
  the binary layout.
\<close>

datatype shared = FromJson json | FromBinary unpacked

definition bytes_of :: "string \<Rightarrow> byte list" where
  "bytes_of decoded = map (\<lambda>char. of_nat (of_char char)) decoded"

definition sharedBundle :: "string \<Rightarrow> error + shared" where
  "sharedBundle decoded =
     (case JSON_parse decoded of
        Some j \<Rightarrow> Inr (FromJson j)
      | None \<Rightarrow>
          (case unpackBundle (bytes_of decoded) of
             Inl e \<Rightarrow> Inl e
           | Inr u \<Rightarrow> Inr (FromBinary u)))"

definition importFromURL :: "string \<Rightarrow> error + shared" where
  "importFromURL encodedData =
     (case atob (map url_to_std encodedData) of
        Inl e \<Rightarrow> Inl e
      | Inr decoded \<Rightarrow> sharedBundle decoded)"

section \<open>Scenarios\<close>

text \<open>The npm package of the specification's scenario, with one required secret variable.\<close>

definition org_tool :: package where
  "org_tool =
     \<lparr>registry_name = ''npm'', package_name = Defined ''@org/tool'', pkg_name = Undefined,
      runtime_hint = Undefined,
      environment_variables =
        Defined [\<lparr>ev_name = ''API_KEY'', ev_is_required = True, ev_is_secret = True,
                  ev_default = Undefined\<rparr>],
      package_arguments = None\<rparr>"

text \<open>An npm package whose only variable is an optional secret that has a default value.\<close>

definition optional_secret :: package where
  "optional_secret =
     \<lparr>registry_name = ''npm'', package_name = Defined ''tool'', pkg_name = Undefined,
      runtime_hint = Undefined,
      environment_variables =
        Defined [\<lparr>ev_name = ''API_TOKEN'', ev_is_required = False, ev_is_secret = True,
                  ev_default = Defined ''abc123''\<rparr>],
      package_arguments = None\<rparr>"

text \<open>A remote package with one secret token variable and no stored header argument.\<close>

definition remote_secret :: package where
  "remote_secret =
     \<lparr>registry_name = ''remote'', package_name = Defined ''svc'', pkg_name = Undefined,
      runtime_hint = Undefined,
      environment_variables =
        Defined [\<lparr>ev_name = ''SVC_TOKEN'', ev_is_required = True, ev_is_secret = True,
                  ev_default = Undefined\<rparr>],
      package_arguments = Some []\<rparr>"

text \<open>
  A bundle store holding one bundle with one server, and a connection store holding one
  connection, both built with the stores' own operations.
\<close>

definition bundles1 :: "Bundle list" where
  "bundles1 = create 5 [] [0x42] []"

definition bundles2 :: "error + Bundle list" where
  "bundles2 = addServer 6 bundles1 ''5'' ''a1b2c3d4-server'' 0"

definition conns1 :: "Connection list" where
  "conns1 = conn_create 5 ''k3j9x0q1z'' [] [0x43] ''a1b2c3d4-server''
              ''a1b2c3d4-server::npm::tool'' [(''API_KEY'', ''sk-123'')]"

definition the_bundle :: Bundle where
  "the_bundle =
     \<lparr>bundle_id = ''5'', bundle_name = Some [0x42], bundle_description = Some [],
      servers = Some [Entry ''a1b2c3d4-server'' 0 None], serverConnections = Some [],
      connections = None, created = 5, updated = 6, tags = []\<rparr>"

definition the_connection :: Connection where
  "the_connection =
     \<lparr>conn_id = ''conn_5_k3j9x0q1z'', conn_name = [0x43], conn_serverId = ''a1b2c3d4-server'',
      conn_packageId = ''a1b2c3d4-server::npm::tool'', credentials = [(''API_KEY'', ''sk-123'')],
      conn_created = 5, conn_updated = 5\<rparr>"

text \<open>A bundle stored by an earlier version, whose only entry is the empty id string.\<close>

definition legacy_bundle :: Bundle where
  "legacy_bundle =
     \<lparr>bundle_id = ''1'', bundle_name = Some [0x42], bundle_description = Some [],
      servers = Some [LegacyId []], serverConnections = Some [],
      connections = None, created = 1, updated = 1, tags = []\<rparr>"

text \<open>The bundle above after the connection has been attached to its server.\<close>

definition attached_bundle :: Bundle where
  "attached_bundle =
     the_bundle\<lparr>serverConnections := Some [(''a1b2c3d4-server'', ''conn_5_k3j9x0q1z'')],
                updated := 7\<rparr>"

text \<open>The bundle above after the empty connection id has been attached to its server.\<close>

definition empty_attached_bundle :: Bundle where
  "empty_attached_bundle =
     the_bundle\<lparr>serverConnections := Some [(''a1b2c3d4-server'', [])], updated := 7\<rparr>"

text \<open>Bundles whose only server has the id \<open>__proto__\<close>, and the id \<open>constructor\<close>.\<close>

definition proto_bundle :: Bundle where
  "proto_bundle =
     \<lparr>bundle_id = ''5'', bundle_name = Some [0x42], bundle_description = Some [],
      servers = Some [Entry ''__proto__'' 0 None], serverConnections = Some [],
      connections = None, created = 5, updated = 6, tags = []\<rparr>"

definition constructor_bundle :: Bundle where
  "constructor_bundle =
     \<lparr>bundle_id = ''5'', bundle_name = Some [0x42], bundle_description = Some [],
      servers = Some [Entry ''constructor'' 0 None], serverConnections = Some [],
      connections = None, created = 5, updated = 6, tags = []\<rparr>"



text \<open>A bundle whose name is 256 letters \<open>a\<close>, and one whose name is 255.\<close>

definition long_name_bundle :: Bundle where
  "long_name_bundle =
     \<lparr>bundle_id = ''9'', bundle_name = Some (replicate 256 0x61), bundle_description = Some [],
      servers = Some [], serverConnections = Some [],
      connections = None, created = 9, updated = 9, tags = []\<rparr>"

definition name255_bundle :: Bundle where
  "name255_bundle =
     \<lparr>bundle_id = ''9'', bundle_name = Some (replicate 255 0x61), bundle_description = Some [],
      servers = Some [], serverConnections = Some [],
      connections = None, created = 9, updated = 9, tags = []\<rparr>"

text \<open>The legacy payload \<open>{"name":"Old Bundle","servers":["abc123"]}\<close>, its Base64 token,
  and the token of a packed bundle.\<close>

definition ustr :: "string \<Rightarrow> ustring" where
  "ustr s = map (\<lambda>c. of_nat (of_char c)) s"

definition dq :: "string \<Rightarrow> string" where
  "dq s = CHR 0x22 # s @ [CHR 0x22]"

definition legacy_payload :: string where
  "legacy_payload =
     ''{'' @ dq ''name'' @ '':'' @ dq ''Old Bundle'' @ '','' @ dq ''servers'' @ '':[''
     @ dq ''abc123'' @ '']}''"

definition legacy_token :: string where
  "legacy_token = ''eyJuYW1lIjoiT2xkIEJ1bmRsZSIsInNlcnZlcnMiOlsiYWJjMTIzIl19''"

definition packed_token :: string where
  "packed_token = ''AWVT8QBCobLD1A''"

definition packed_bytes :: "nat list" where
  "packed_bytes = [0x01, 0x65, 0x53, 0xF1, 0x00, 0x42, 0xA1, 0xB2, 0xC3, 0xD4]"

text \<open>The characters that can begin a JSON text.\<close>

definition json_start :: "char \<Rightarrow> bool" where
  "json_start c =
     (is_json_ws c \<or> c = CHR 0x22 \<or> c \<in> set ''{[-0123456789tfn'')"

section \<open>Properties of the synthesizer\<close>

lemma map_of_js_set:
  "map_of (js_set env k v) n =
     (if k = ''__proto__'' \<and> map_of env k = None then map_of env n
      else if n = k then Some v else map_of env n)"
  by (auto simp: js_set_def update_conv')

lemma map_of_env_step:
  "map_of (env_step env v) n =
     (if ev_name v = n \<and> (ev_is_required v \<or> truthy (ev_default v))
         \<and> \<not> (n = ''__proto__'' \<and> map_of env n = None)
      then Some (if ev_is_required v \<and> ev_is_secret v then placeholder n
                 else or_else (ev_default v) (placeholder n))
      else map_of env n)"
  by (auto simp: env_step_def map_of_js_set truthy_def or_else_def split: nullable.splits)

text \<open>The value of a name in \<open>env\<close> is the one written for the last variable of that name
  that is required or has a non-empty default; nothing is written under \<open>__proto__\<close>.\<close>

lemma env_last_writer:
  "map_of (foldl env_step [] vs) n =
     (if n = ''__proto__'' then None
      else case find (\<lambda>w. ev_name w = n \<and> (ev_is_required w \<or> truthy (ev_default w))) (rev vs) of
             None \<Rightarrow> None
           | Some w \<Rightarrow> Some (if ev_is_required w \<and> ev_is_secret w then placeholder n
                             else or_else (ev_default w) (placeholder n)))"
proof (induction vs rule: rev_induct)
  case Nil
  then show ?case by simp
next
  case (snoc x xs)
  show ?case
    by (simp only: foldl_append foldl.simps map_of_env_step snoc.IH rev_append rev.simps
                   append.simps find.simps)
       (auto split: option.splits)
qed

lemma header_set_Authorization:
  "header_set h ''Authorization'' v = h\<lparr>h_own := AList.update ''Authorization'' v (h_own h)\<rparr>"
  by (simp add: header_set_def)

text \<open>The inferred headers are at most one \<open>Authorization\<close> header, for the last secret
  variable whose upper-cased name contains \<open>TOKEN\<close> or \<open>KEY\<close>.\<close>

lemma inferred_headers_last:
  "foldl infer_step \<lparr>h_own = [], h_bare = b\<rparr> vs =
     \<lparr>h_own = (case find infers_bearer (rev vs) of
                 None \<Rightarrow> []
               | Some w \<Rightarrow> [(''Authorization'', Defined (''Bearer '' @ placeholder (ev_name w)))]),
      h_bare = b\<rparr>"
proof (induction vs rule: rev_induct)
  case Nil
  then show ?case by simp
next
  case (snoc x xs)
  then show ?case
    by (simp add: infer_step_def header_set_Authorization split: option.splits)
qed

lemma stored_headers_Some: "stored_headers (Some es) h pas \<noteq> Inl e"
  by (induction pas arbitrary: h)
     (auto simp: header_value_def split: sum.splits nullable.splits option.splits)

lemma stored_headers_None: "stored_headers None h pas = Inl e \<Longrightarrow> e = TypeError"
  by (induction pas arbitrary: h)
     (auto simp: header_value_def split: sum.splits nullable.splits if_splits)

lemma org_tool_eq:
  "buildPackageConfig org_tool =
     Inr (Launch (VString ''npx'') [Defined ''@org/tool''] [(''API_KEY'', ''${API_KEY}'')])"
  by (simp add: org_tool_def buildPackageConfig_def buildPackageArgs_def buildPackageEnv_def
      env_step_def js_set_def getDefaultRuntime_def js_get_def runtimeMap_def or_else_def
      js_or_def truthy_def placeholder_def)

lemma remote_secret_eq:
  "buildPackageConfig remote_secret =
     Inr (Remote ''http'' (VString ''https://example.com/mcp'')
            (Some [(''Authorization'', Defined ''Bearer ${SVC_TOKEN}'')]))"
  by (simp add: remote_secret_def buildPackageConfig_def buildRemotePackageConfig_def
      buildAuthHeaders_def infer_step_def header_set_def
      infers_bearer_def toUpperCase_def upper_char_def getKnownRemoteURL_def js_get_def
      knownUrls_def property_key_def object_prototype_keys_def
      or_else_def js_or_def truthy_def placeholder_def)

text \<open>
  C6. For the package \<open>{registry_name: "npm", package_name: "@org/tool",
  environment_variables: [{name: "API_KEY", is_required: true, is_secret: true}]}\<close>
  synthesis returns exactly \<open>{command: "npx", args: ["@org/tool"],
  env: {API_KEY: "${API_KEY}"}}\<close>.
\<close>

theorem org_tool_config:
  "buildPackageConfig org_tool =
     Inr (Launch (VString ''npx'') [Defined ''@org/tool''] [(''API_KEY'', ''${API_KEY}'')])"
  by (simp add: org_tool_def buildPackageConfig_def buildPackageArgs_def buildPackageEnv_def
      env_step_def js_set_def getDefaultRuntime_def js_get_def runtimeMap_def or_else_def
      js_or_def truthy_def placeholder_def)

text \<open>
  C3, as amended. Let \<open>vs\<close> be the environment variables of a package (none when the
  property is \<open>null\<close> or absent). In a \<open>{command, args, env}\<close> configuration, \<open>env\<close> maps
  a name other than \<open>__proto__\<close> to the value written for the last variable of that name
  that is required or has a non-empty default: \<open>${NAME}\<close> when that variable is required
  and secret, and otherwise its default when it has a non-empty one (\<open>${NAME}\<close> when it has
  none). So a secret variable is mapped to \<open>${NAME}\<close> when it is required and to its
  plaintext default when it is optional and has one. Names without such a variable, and the
  name \<open>__proto__\<close>, are not in \<open>env\<close>. In a remote configuration without stored header
  arguments, the headers are the single header \<open>Authorization: Bearer ${NAME}\<close> for the
  last secret variable \<open>NAME\<close> whose upper-cased name contains \<open>TOKEN\<close> or \<open>KEY\<close>, and
  are absent when there is no such variable. Synthesis fails only for a remote package
  whose \<open>environment_variables\<close> is \<open>null\<close>, with \<open>TypeError\<close>.
\<close>

theorem secret_env_placeholder_or_default:
  "let vs = (case environment_variables pkg of Defined vs \<Rightarrow> vs | _ \<Rightarrow> []) in
   case buildPackageConfig pkg of
     Inl e \<Rightarrow>
       e = TypeError \<and> registry_name pkg = ''remote'' \<and> environment_variables pkg = Null
   | Inr (Launch cmd args env) \<Rightarrow>
       (\<forall>n. map_of env n =
          (if n = ''__proto__'' then None
           else case find (\<lambda>w. ev_name w = n \<and> (ev_is_required w \<or> truthy (ev_default w)))
                       (rev vs) of
                  None \<Rightarrow> None
                | Some w \<Rightarrow> Some (if ev_is_required w \<and> ev_is_secret w then placeholder n
                                  else or_else (ev_default w) (placeholder n))))
   | Inr (Remote ty url hdrs) \<Rightarrow>
       (filter (\<lambda>a. arg_type a = ''header'')
          (case package_arguments pkg of None \<Rightarrow> [] | Some pas \<Rightarrow> pas) = [] \<longrightarrow>
        hdrs = (case find infers_bearer (rev vs) of
                  None \<Rightarrow> None
                | Some w \<Rightarrow>
                    Some [(''Authorization'', Defined (''Bearer '' @ placeholder (ev_name w)))]))"
proof -
  define vs where "vs = (case environment_variables pkg of Defined vs \<Rightarrow> vs | _ \<Rightarrow> [])"
  define F where "F = (\<lambda>n. if n = ''__proto__'' then None
           else case find (\<lambda>w. ev_name w = n \<and> (ev_is_required w \<or> truthy (ev_default w)))
                       (rev vs) of
                  None \<Rightarrow> None
                | Some w \<Rightarrow> Some (if ev_is_required w \<and> ev_is_secret w then placeholder n
                                  else or_else (ev_default w) (placeholder n)))"
  have env: "map_of (buildPackageEnv (environment_variables pkg)) n = F n" for n
    using env_last_writer[of vs n]
    by (cases "environment_variables pkg") (simp_all add: buildPackageEnv_def vs_def F_def)
  define H where "H = (case find infers_bearer (rev vs) of
                  None \<Rightarrow> None
                | Some w \<Rightarrow>
                    Some [(''Authorization'', Defined (''Bearer '' @ placeholder (ev_name w)))])"
  have remote: "case buildRemotePackageConfig pkg of
       Inl e \<Rightarrow> e = TypeError \<and> environment_variables pkg = Null
     | Inr (Launch cmd args env) \<Rightarrow> False
     | Inr (Remote ty url hdrs) \<Rightarrow>
         (filter (\<lambda>a. arg_type a = ''header'')
            (case package_arguments pkg of None \<Rightarrow> [] | Some pas \<Rightarrow> pas) = [] \<longrightarrow> hdrs = H)"
  proof (cases "environment_variables pkg")
    case Undefined
    then show ?thesis
      using stored_headers_Some[of "[]"]
      by (auto simp: buildRemotePackageConfig_def buildAuthHeaders_def Let_def H_def vs_def
               split: sum.splits)
  next
    case Null
    then show ?thesis
      using stored_headers_None
      by (auto simp: buildRemotePackageConfig_def buildAuthHeaders_def Let_def H_def vs_def
               split: sum.splits)
  next
    case (Defined es)
    then show ?thesis
      using stored_headers_Some[of es] inferred_headers_last[of False es]
      by (auto simp: buildRemotePackageConfig_def buildAuthHeaders_def Let_def H_def vs_def
               split: sum.splits option.splits)
  qed
  have "case buildPackageConfig pkg of
     Inl e \<Rightarrow>
       e = TypeError \<and> registry_name pkg = ''remote'' \<and> environment_variables pkg = Null
   | Inr (Launch cmd args env) \<Rightarrow> (\<forall>n. map_of env n = F n)
   | Inr (Remote ty url hdrs) \<Rightarrow>
       (filter (\<lambda>a. arg_type a = ''header'')
          (case package_arguments pkg of None \<Rightarrow> [] | Some pas \<Rightarrow> pas) = [] \<longrightarrow> hdrs = H)"
  proof (cases "registry_name pkg = ''remote''")
    case True
    with remote show ?thesis
      by (auto simp: buildPackageConfig_def split: sum.splits config.splits)
  next
    case False
    then show ?thesis
      by (simp add: buildPackageConfig_def buildDockerPackageConfig_def env)
  qed
  then show ?thesis
    unfolding Let_def vs_def[symmetric] F_def H_def .
qed

theorem secret_env_placeholder_or_default_witness:
  "buildPackageConfig org_tool =
     Inr (Launch (VString ''npx'') [Defined ''@org/tool''] [(''API_KEY'', ''${API_KEY}'')])
   \<and> map_of [(''API_KEY'', ''${API_KEY}'')] ''API_KEY'' = Some (placeholder ''API_KEY'')
   \<and> buildPackageConfig remote_secret =
       Inr (Remote ''http'' (VString ''https://example.com/mcp'')
              (Some [(''Authorization'', Defined (''Bearer '' @ placeholder ''SVC_TOKEN''))]))"
  using secret_env_placeholder_or_default[of org_tool]
        secret_env_placeholder_or_default[of remote_secret]
  by (simp add: org_tool_eq remote_secret_eq placeholder_def)

theorem optional_secret_default_exported:
  "environment_variables optional_secret =
     Defined [\<lparr>ev_name = ''API_TOKEN'', ev_is_required = False, ev_is_secret = True,
               ev_default = Defined ''abc123''\<rparr>]
   \<and> buildPackageConfig optional_secret =
       Inr (Launch (VString ''npx'') [Defined ''tool''] [(''API_TOKEN'', ''abc123'')])
   \<and> ''abc123'' \<noteq> placeholder ''API_TOKEN''"
  by (simp add: optional_secret_def buildPackageConfig_def buildPackageArgs_def
      buildPackageEnv_def env_step_def js_set_def getDefaultRuntime_def js_get_def
      runtimeMap_def or_else_def js_or_def truthy_def placeholder_def)

section \<open>Properties of the bundle and connection stores\<close>

lemma findIndex_None: "findIndex P xs = None \<longleftrightarrow> (\<forall>x\<in>set xs. \<not> P x)"
  by (induction xs) (auto split: option.splits)

lemma findIndex_Some:
  "findIndex P xs = Some i \<Longrightarrow>
   \<exists>ys e zs. xs = ys @ e # zs \<and> P e \<and> (\<forall>y\<in>set ys. \<not> P y) \<and> splice1 i xs = ys @ zs"
proof (induction xs arbitrary: i)
  case Nil
  then show ?case by simp
next
  case (Cons x xs)
  show ?case
  proof (cases "P x")
    case True
    with Cons.prems have "i = 0" by simp
    with True show ?thesis
      by (intro exI[of _ "[]"] exI[of _ x] exI[of _ xs]) (simp add: splice1_def)
  next
    case False
    with Cons.prems obtain j where j: "findIndex P xs = Some j" "i = Suc j"
      by (auto split: option.splits)
    from Cons.IH[OF j(1)] obtain ys e zs where
      "xs = ys @ e # zs" "P e" "\<forall>y\<in>set ys. \<not> P y" "splice1 j xs = ys @ zs" by blast
    with False j(2) show ?thesis
      by (intro exI[of _ "x # ys"] exI[of _ e] exI[of _ zs]) (simp add: splice1_def)
  qed
qed

lemma getById_bundle_id: "getById items bid = Some b \<Longrightarrow> bundle_id b = bid"
  by (auto simp: getById_def dest: find_Some_iff[THEN iffD1])

lemma getById_store_bundle:
  "getById items bid = Some b \<Longrightarrow> bundle_id b' = bid \<Longrightarrow>
   getById (store_bundle b' items) bid = Some b'"
  by (induction items) (auto simp: getById_def split: if_splits)

lemma store_bundle_find:
  "find (\<lambda>x. bundle_id x = bundle_id b) items = Some b \<Longrightarrow> store_bundle b items = items"
  by (induction items) (auto split: if_splits)

lemma store_bundle_same: "getById items bid = Some b \<Longrightarrow> store_bundle b items = items"
  using getById_bundle_id[of items bid b] store_bundle_find[of b items]
  by (simp add: getById_def)

lemma length_store_bundle: "length (store_bundle b items) = length items"
  by (induction items) auto

lemma dec5: "dec 5 = ''5''"
  by (simp add: dec.simps)

lemma bundles2_eq: "bundles2 = Inr [the_bundle]"
  by (simp add: bundles2_def bundles1_def create_def addServer_def getById_def dec5 trim_def
      is_js_space_def the_bundle_def)

lemma conns1_eq: "conns1 = [the_connection]"
  by (simp add: conns1_def conn_create_def dec5 trim_def is_js_space_def the_connection_def)

lemma getById_the_bundle: "getById [the_bundle] ''5'' = Some the_bundle"
  by (simp add: getById_def the_bundle_def)

lemma getById_attached_bundle: "getById [attached_bundle] ''5'' = Some attached_bundle"
  by (simp add: getById_def attached_bundle_def the_bundle_def)

lemma attach_the_bundle:
  "attachConnection 7 [the_bundle] ''5'' ''a1b2c3d4-server'' ''conn_5_k3j9x0q1z''
     = Inr [attached_bundle]"
  by (simp add: attachConnection_def getById_def the_bundle_def attached_bundle_def js_set_def)

text \<open>
  C1, at a failing input. A bundle is created, a server is added to it and a connection is
  attached to that server; the bundle then references the connection, and deleting the
  connection succeeds and empties the connection list, where the claim says that it fails
  with a Conflict error and leaves the list unchanged.
\<close>

theorem delete_referenced_connection_succeeds:
  "bundles2 = Inr [the_bundle] \<and> conns1 = [the_connection]
   \<and> attachConnection 7 [the_bundle] ''5'' ''a1b2c3d4-server'' ''conn_5_k3j9x0q1z''
       = Inr [attached_bundle]
   \<and> references attached_bundle ''conn_5_k3j9x0q1z''
   \<and> conn_delete [attached_bundle] [the_connection] ''conn_5_k3j9x0q1z'' = Inr []"
  by (simp add: bundles2_eq conns1_eq attach_the_bundle)
     (simp add: references_def conn_delete_def attached_bundle_def the_bundle_def
        the_connection_def splice1_def)

text \<open>The check of \<open>delete\<close> reads the field \<open>connections\<close> of a bundle, which no
  operation of the bundle store writes: for bundles without it the Conflict error never
  occurs, whatever they map their servers to.\<close>

lemma conn_delete_never_conflict:
  "\<forall>b\<in>set items. connections b = None \<Longrightarrow>
   conn_delete items citems cid \<noteq>
     Inl (Error ''Cannot delete connection - it is used in one or more bundles'')"
  by (auto simp: conn_delete_def Let_def list_ex_iff split: option.splits)

text \<open>
  C7, at a failing input. The bundle holds the old-format entry \<open>""\<close>; adding the server
  id \<open>""\<close>, which is present, appends a second entry, so the entry list grows from one
  to two.
\<close>

theorem addServer_empty_id_duplicates:
  "servers legacy_bundle = Some [LegacyId []]
   \<and> addServer 2 [legacy_bundle] ''1'' [] 0 =
       Inr [legacy_bundle\<lparr>servers := Some [LegacyId [], Entry [] 0 None], updated := 2\<rparr>]"
  by (simp add: addServer_def getById_def legacy_bundle_def)

text \<open>When the entry found for the id is truthy (an object, or a non-empty id string),
  \<open>addServer\<close> changes nothing, whatever package index is passed.\<close>

lemma addServer_present_noop:
  assumes "getById items bundleId = Some b" "servers b = Some es"
    and "find (entry_matches sid) es = Some e" "entry_truthy e"
  shows "addServer now items bundleId sid pidx = Inr items"
proof -
  have eq: "b\<lparr>servers := Some es\<rparr> = b" using assms(2) by simp
  have "store_bundle (b\<lparr>servers := Some es\<rparr>) items = items"
    unfolding eq by (rule store_bundle_same[OF assms(1)])
  then show ?thesis
    using assms by (simp add: addServer_def Let_def)
qed

text \<open>
  For a bundle of the store, \<open>attachConnection\<close> fails with the error "Server not in
  bundle" if and only if the bundle has no entry for the server id. When it has one, the
  call writes the given connection id, whatever it is, to \<open>serverConnections[serverId]\<close>,
  leaves the other keys and the entries as they are, and sets \<open>updated\<close> to the current
  time. The write creates or replaces the own property, except for the server id
  \<open>__proto__\<close> when the object has no own property of that name: then nothing is stored.
\<close>

lemma attachConnection_sets_mapping:
  assumes "getById items bundleId = Some b"
  shows "(attachConnection now items bundleId sid cid = Inl (Error ''Server not in bundle'')
            \<longleftrightarrow> \<not> (\<exists>es. servers b = Some es \<and> (\<exists>e\<in>set es. entry_matches sid e)))
       \<and> ((\<exists>es. servers b = Some es \<and> (\<exists>e\<in>set es. entry_matches sid e)) \<longrightarrow>
            (\<exists>items' b' al0 al.
               attachConnection now items bundleId sid cid = Inr items'
               \<and> getById items' bundleId = Some b'
               \<and> al0 = (case serverConnections b of None \<Rightarrow> [] | Some al0 \<Rightarrow> al0)
               \<and> serverConnections b' = Some al
               \<and> (sid \<noteq> ''__proto__'' \<or> map_of al0 sid \<noteq> None \<longrightarrow> map_of al sid = Some cid)
               \<and> (sid = ''__proto__'' \<and> map_of al0 sid = None \<longrightarrow> al = al0)
               \<and> (\<forall>k. k \<noteq> sid \<longrightarrow> map_of al k = map_of al0 k)
               \<and> updated b' = now
               \<and> servers b' = servers b
               \<and> length items' = length items))"
proof -
  let ?b' = "b\<lparr>serverConnections :=
                 Some (js_set (case serverConnections b of None \<Rightarrow> [] | Some al \<Rightarrow> al) sid cid),
               updated := now\<rparr>"
  have id: "bundle_id ?b' = bundleId" using getById_bundle_id[OF assms] by simp
  show ?thesis
    using assms getById_store_bundle[OF assms id]
    by (auto simp: attachConnection_def Let_def list_ex_iff update_conv' length_store_bundle
                   js_set_def
             split: option.splits)
qed

lemma addServer_proto:
  "addServer 6 bundles1 ''5'' ''__proto__'' 0 = Inr [proto_bundle]"
  by (simp add: bundles1_def create_def addServer_def getById_def dec5 trim_def
      is_js_space_def proto_bundle_def)

text \<open>
  C8, at a failing input. The bundle has an entry for the server id \<open>__proto__\<close>.
  Attaching a connection to that server succeeds and refreshes \<open>updated\<close>, but
  \<open>serverConnections\<close> has no own property afterwards: the connection id is not stored,
  and \<open>getServerConnection\<close> does not return the connection of that id, which the
  registry holds. The same call for the server id \<open>a1b2c3d4-server\<close> stores the
  connection id, and \<open>getServerConnection\<close> returns the connection.
\<close>

theorem attachConnection_proto_key_not_stored:
  "addServer 6 bundles1 ''5'' ''__proto__'' 0 = Inr [proto_bundle]
   \<and> attachConnection 7 [proto_bundle] ''5'' ''__proto__'' ''conn_5_k3j9x0q1z''
       = Inr [proto_bundle\<lparr>updated := 7\<rparr>]
   \<and> serverConnections (proto_bundle\<lparr>updated := 7\<rparr>) = Some []
   \<and> conn_get [the_connection] ''conn_5_k3j9x0q1z'' = Defined the_connection
   \<and> getServerConnection [the_connection] [proto_bundle\<lparr>updated := 7\<rparr>] ''5'' ''__proto__''
       = Undefined
   \<and> attachConnection 7 [the_bundle] ''5'' ''a1b2c3d4-server'' ''conn_5_k3j9x0q1z''
       = Inr [attached_bundle]
   \<and> serverConnections attached_bundle = Some [(''a1b2c3d4-server'', ''conn_5_k3j9x0q1z'')]
   \<and> getServerConnection [the_connection] [attached_bundle] ''5'' ''a1b2c3d4-server''
       = Defined the_connection"
  by (simp add: addServer_proto attach_the_bundle)
     (simp add: attachConnection_def getServerConnection_def conn_get_def getById_def
        js_set_def js_get_def object_prototype_keys_def proto_bundle_def the_connection_def
        attached_bundle_def the_bundle_def)

text \<open>
  For a bundle of the store and a server id present in it, \<open>removeServer\<close> removes the
  first entry that matches the id and, when \<open>serverConnections[serverId]\<close> is truthy,
  deletes the own property of that name. An own property that holds a connection id is
  thereby removed; one that holds the empty string stays. No connection is returned by a
  subsequent \<open>getServerConnection\<close>, and for a server id that is not the name of a
  property of \<open>Object.prototype\<close> the result is null. When the id is absent,
  \<open>removeServer\<close> leaves the store as it is.
\<close>

lemma removeServer_removes_entry:
  assumes "getById items bundleId = Some b"
  shows "((\<exists>es. servers b = Some es \<and> (\<exists>e\<in>set es. entry_matches sid e)) \<longrightarrow>
            (\<exists>items' b' ys e zs.
               removeServer now items bundleId sid = Inr items'
               \<and> getById items' bundleId = Some b'
               \<and> servers b = Some (ys @ e # zs) \<and> entry_matches sid e
               \<and> (\<forall>y\<in>set ys. \<not> entry_matches sid y)
               \<and> servers b' = Some (ys @ zs)
               \<and> serverConnections b' =
                    (if conn_truthy (serverConnections b) sid
                     then map_option (AList.delete sid) (serverConnections b)
                     else serverConnections b)
               \<and> (\<forall>al cid. serverConnections b = Some al \<and> map_of al sid = Some cid \<and> cid \<noteq> []
                     \<longrightarrow> (\<exists>al'. serverConnections b' = Some al' \<and> map_of al' sid = None))
               \<and> (\<forall>c. getServerConnection citems items' bundleId sid \<noteq> Defined c)
               \<and> (sid \<notin> set object_prototype_keys \<longrightarrow>
                     \<not> hasServerConnection items' bundleId sid
                     \<and> getServerConnection citems items' bundleId sid = Null)))
       \<and> (\<not> (\<exists>es. servers b = Some es \<and> (\<exists>e\<in>set es. entry_matches sid e)) \<longrightarrow>
            removeServer now items bundleId sid = Inr items)"
proof (intro conjI impI)
  assume "\<exists>es. servers b = Some es \<and> (\<exists>e\<in>set es. entry_matches sid e)"
  then obtain es where es: "servers b = Some es" "\<exists>e\<in>set es. entry_matches sid e" by blast
  then obtain i where i: "findIndex (entry_matches sid) es = Some i"
    using findIndex_None[of "entry_matches sid" es]
    by (cases "findIndex (entry_matches sid) es") auto
  from findIndex_Some[OF i] obtain ys e zs where
    sp: "es = ys @ e # zs" "entry_matches sid e" "\<forall>y\<in>set ys. \<not> entry_matches sid y"
        "splice1 i es = ys @ zs" by blast
  define sc' where "sc' = (if conn_truthy (serverConnections b) sid
                  then map_option (AList.delete sid) (serverConnections b)
                  else serverConnections b)"
  define b' where "b' = b\<lparr>servers := Some (splice1 i es), serverConnections := sc',
               updated := now\<rparr>"
  have id: "bundle_id b' = bundleId" using getById_bundle_id[OF assms] by (simp add: b'_def)
  have run: "removeServer now items bundleId sid = Inr (store_bundle b' items)"
    using assms es i by (simp add: removeServer_def b'_def sc'_def)
  have get: "getById (store_bundle b' items) bundleId = Some b'"
    by (rule getById_store_bundle[OF assms id])
  have srv: "servers b' = Some (ys @ zs)" using sp by (simp add: b'_def)
  have sc: "serverConnections b' = sc'" by (simp add: b'_def)
  have sc2: "serverConnections b' =
               (if conn_truthy (serverConnections b) sid
                then map_option (AList.delete sid) (serverConnections b)
                else serverConnections b)"
    by (simp add: b'_def sc'_def)
  have cl: "\<forall>al cid. serverConnections b = Some al \<and> map_of al sid = Some cid \<and> cid \<noteq> []
              \<longrightarrow> (\<exists>al'. serverConnections b' = Some al' \<and> map_of al' sid = None)"
    unfolding sc by (auto simp: sc'_def conn_truthy_def js_get_def delete_conv')
  have own: "\<forall>al' cid. sc' = Some al' \<and> map_of al' sid = Some cid \<longrightarrow> cid = []"
    by (auto simp: sc'_def conn_truthy_def js_get_def delete_conv'
             split: if_splits option.splits)
  have nd: "\<forall>c. getServerConnection citems (store_bundle b' items) bundleId sid \<noteq> Defined c"
    using own by (auto simp: getServerConnection_def get sc js_get_def split: option.splits)
  have np: "sid \<notin> set object_prototype_keys \<longrightarrow>
              \<not> hasServerConnection (store_bundle b' items) bundleId sid
              \<and> getServerConnection citems (store_bundle b' items) bundleId sid = Null"
    using own
    by (auto simp: hasServerConnection_def getServerConnection_def get sc conn_truthy_def
                   js_get_def split: option.splits)
  show "\<exists>items' b' ys e zs.
               removeServer now items bundleId sid = Inr items'
               \<and> getById items' bundleId = Some b'
               \<and> servers b = Some (ys @ e # zs) \<and> entry_matches sid e
               \<and> (\<forall>y\<in>set ys. \<not> entry_matches sid y)
               \<and> servers b' = Some (ys @ zs)
               \<and> serverConnections b' =
                    (if conn_truthy (serverConnections b) sid
                     then map_option (AList.delete sid) (serverConnections b)
                     else serverConnections b)
               \<and> (\<forall>al cid. serverConnections b = Some al \<and> map_of al sid = Some cid \<and> cid \<noteq> []
                     \<longrightarrow> (\<exists>al'. serverConnections b' = Some al' \<and> map_of al' sid = None))
               \<and> (\<forall>c. getServerConnection citems items' bundleId sid \<noteq> Defined c)
               \<and> (sid \<notin> set object_prototype_keys \<longrightarrow>
                     \<not> hasServerConnection items' bundleId sid
                     \<and> getServerConnection citems items' bundleId sid = Null)"
    using run get es(1) sp(1,2,3) srv sc2 cl nd np by blast
next
  assume no: "\<not> (\<exists>es. servers b = Some es \<and> (\<exists>e\<in>set es. entry_matches sid e))"
  show "removeServer now items bundleId sid = Inr items"
  proof (cases "servers b")
    case None
    with assms show ?thesis by (simp add: removeServer_def)
  next
    case (Some es)
    with no have "findIndex (entry_matches sid) es = None" by (simp add: findIndex_None)
    with assms Some show ?thesis by (simp add: removeServer_def)
  qed
qed

lemma attach_empty_id:
  "attachConnection 7 [the_bundle] ''5'' ''a1b2c3d4-server'' [] = Inr [empty_attached_bundle]"
  by (simp add: attachConnection_def getById_def the_bundle_def empty_attached_bundle_def
      js_set_def)

text \<open>
  C9, at two failing inputs. The empty connection id is attached to the server of a bundle;
  removing the server removes its entry and leaves the property
  \<open>serverConnections[serverId]\<close> in place. And for a bundle whose server has the id
  \<open>constructor\<close>, after the server is removed \<open>getServerConnection\<close> returns
  \<open>undefined\<close>, not null, and \<open>hasServerConnection\<close> is true. For the bundle whose server
  is attached to a connection id that is not empty, removing the server deletes the
  property, and \<open>getServerConnection\<close> returns null.
\<close>

theorem removeServer_keeps_falsy_mapping:
  "attachConnection 7 [the_bundle] ''5'' ''a1b2c3d4-server'' [] = Inr [empty_attached_bundle]
   \<and> removeServer 8 [empty_attached_bundle] ''5'' ''a1b2c3d4-server''
       = Inr [empty_attached_bundle\<lparr>servers := Some [], updated := 8\<rparr>]
   \<and> serverConnections (empty_attached_bundle\<lparr>servers := Some [], updated := 8\<rparr>)
       = Some [(''a1b2c3d4-server'', [])]
   \<and> removeServer 8 [constructor_bundle] ''5'' ''constructor''
       = Inr [constructor_bundle\<lparr>servers := Some [], updated := 8\<rparr>]
   \<and> getServerConnection [the_connection]
        [constructor_bundle\<lparr>servers := Some [], updated := 8\<rparr>] ''5'' ''constructor''
       = Undefined
   \<and> hasServerConnection [constructor_bundle\<lparr>servers := Some [], updated := 8\<rparr>] ''5''
        ''constructor''
   \<and> removeServer 8 [attached_bundle] ''5'' ''a1b2c3d4-server''
       = Inr [attached_bundle\<lparr>servers := Some [], serverConnections := Some [],
                              updated := 8\<rparr>]
   \<and> getServerConnection [the_connection]
        [attached_bundle\<lparr>servers := Some [], serverConnections := Some [], updated := 8\<rparr>]
        ''5'' ''a1b2c3d4-server'' = Null"
  by (simp add: attach_empty_id)
     (simp add: removeServer_def getServerConnection_def hasServerConnection_def getById_def
        conn_truthy_def js_get_def object_prototype_keys_def splice1_def
        empty_attached_bundle_def constructor_bundle_def attached_bundle_def the_bundle_def)

section \<open>Properties of the cache store\<close>

text \<open>\<open>set\<close> stores the \<open>maxAge\<close> it is given with the entry, under every key.\<close>

lemma cache_set_stores_maxAge:
  "cache_lookup (cache_set now c key d maxAge) key =
     SEntry \<lparr>ce_data = d, ce_timestamp = now, ce_maxAge = maxAge\<rparr>"
  by (cases "key = ''__proto__'' \<and> map_of (c_own c) key = None")
     (auto simp: cache_set_def cache_lookup_def Let_def update_conv')

text \<open>What \<open>get\<close> returns for an entry depends on its age and not on its \<open>maxAge\<close>: an
  entry is expired when it is more than 24 hours old.\<close>

lemma cache_get_ignores_maxAge:
  "fst (cache_get truthy_of stale_of t (cache_set now c key d maxAge) key) =
     (if t - now > 86400000 then RNull else RData d)"
  by (simp add: cache_get_def cache_set_stores_maxAge)

text \<open>An expired entry that is an own property of the cache object is removed by \<open>get\<close>;
  the other entries stay.\<close>

lemma cache_get_own_entry:
  assumes "map_of (c_own c) key = Some e"
  shows "cache_get truthy_of stale_of now c key =
           (if now - ce_timestamp e > 86400000 then (RNull, cache_remove c key)
            else (RData (ce_data e), c))"
    and "map_of (c_own (cache_remove c key)) key = None"
    and "k \<noteq> key \<Longrightarrow> map_of (c_own (cache_remove c key)) k = map_of (c_own c) k"
    and "c_proto (cache_remove c key) = c_proto c"
  using assms by (simp_all add: cache_get_def cache_lookup_def cache_remove_def delete_conv')

lemma cache_set_own:
  "key \<noteq> ''__proto__'' \<or> map_of (c_own c) key \<noteq> None \<Longrightarrow>
   map_of (c_own (cache_set now c key d maxAge)) key =
     Some \<lparr>ce_data = d, ce_timestamp = now, ce_maxAge = maxAge\<rparr>"
  by (auto simp: cache_set_def Let_def update_conv')


section \<open>Properties of the share codec\<close>

lemma length_utf8: "length (utf8 cp) \<le> 4" "cp < 0x10000 \<Longrightarrow> length (utf8 cp) \<le> 3"
  by (auto simp: utf8_def)

lemma scalar_lt: "scalar c < 0x10000"
  using unsigned_less[of c, where 'a=nat] by (auto simp: scalar_def)

lemma length_encode: "length (encode cs) \<le> 3 * length cs"
proof (induction cs rule: encode.induct)
  case 1 then show ?case by simp
next
  case (2 c) then show ?case using length_utf8(2)[OF scalar_lt[of c]] by simp
next
  case (3 c d cs)
  show ?case
  proof (cases "is_high_surrogate c \<and> is_low_surrogate d")
    case True
    with 3 length_utf8(1)[of "0x10000 + (unat c - 0xD800) * 1024 + (unat d - 0xDC00)"]
    show ?thesis by simp
  next
    case False
    with 3 length_utf8(2)[OF scalar_lt[of c]] show ?thesis by auto
  qed
qed

lemma length_encode_take50: "length (encode (take 50 cs)) \<le> 150"
  using length_encode[of "take 50 cs"] by simp

lemma be32_decomp:
  fixes n :: nat
  shows "n div 16777216 * 16777216 + n div 65536 mod 256 * 65536
        + n div 256 mod 256 * 256 + n mod 256 = n"
proof -
  define a where "a = n div 16777216"
  define b where "b = n div 65536 mod 256"
  define c where "c = n div 256 mod 256"
  define d where "d = n mod 256"
  define m1 where "m1 = n mod 65536"
  define m2 where "m2 = n mod 16777216"
  have 1: "m1 = 256 * c + d"
    using mod_mult2_eq[of n 256 256] by (simp add: m1_def c_def d_def)
  have 2: "m2 = 65536 * b + m1"
    using mod_mult2_eq[of n 65536 256] by (simp add: m2_def b_def m1_def)
  have 3: "n = 16777216 * a + m2"
    by (simp add: a_def m2_def)
  have "a * 16777216 + b * 65536 + c * 256 + d = n"
    using 1 2 3 by linarith
  then show ?thesis by (simp only: a_def b_def c_def d_def)
qed

lemma getUint32_be32:
  "getUint32 (of_nat (unat w div 16777216)) (of_nat (unat w div 65536 mod 256))
             (of_nat (unat w div 256 mod 256)) (of_nat (unat w mod 256)) = (w :: 32 word)"
proof -
  have lt: "unat w < 4294967296" using unsigned_less[of w, where 'a=nat] by simp
  then have a: "unat w div 16777216 < 256" by simp
  have u: "unat (of_nat k :: 8 word) = k" if "k < 256" for k
    using that by (simp add: unat_of_nat take_bit_nat_eq_self_iff)
  have "getUint32 (of_nat (unat w div 16777216)) (of_nat (unat w div 65536 mod 256))
             (of_nat (unat w div 256 mod 256)) (of_nat (unat w mod 256))
        = (of_nat (unat w div 16777216 * 16777216 + unat w div 65536 mod 256 * 65536
        + unat w div 256 mod 256 * 256 + unat w mod 256) :: 32 word)"
    unfolding getUint32_def using a by (simp only: u mod_less_divisor zero_less_numeral)
  then show ?thesis by (simp only: be32_decomp of_nat_unat ucast_id)
qed


lemma read_servers_concat:
  "read_servers (concat (map be32 ws)) =
     Inr (map (\<lambda>w. padStart 8 CHR ''0'' (toHex (unat w))) ws)"
  by (induction ws) (simp_all add: be32_def getUint32_be32)

lemma lowerhex_cases:
  "lowerhex c \<Longrightarrow> \<exists>v. hexval c = Some v \<and> v < 16 \<and> hexdigit v = c"
  by (auto simp: lowerhex_def hexval_def hexdigit_def)

lemma lowerhex_plain:
  "lowerhex c \<Longrightarrow> \<not> is_ws_char c \<and> c \<noteq> CHR ''-'' \<and> c \<noteq> CHR ''+'' \<and> c \<noteq> CHR ''x'' \<and> c \<noteq> CHR ''X''"
  by (auto simp: lowerhex_def is_ws_char_def)

lemma digits16_snoc:
  "list_all lowerhex s \<Longrightarrow> hexval c = Some v \<Longrightarrow>
   digits16 acc (s @ [c]) = 16 * digits16 acc s + v"
proof (induction s arbitrary: acc)
  case Nil then show ?case by simp
next
  case (Cons a s)
  from Cons.prems(1) obtain u where "hexval a = Some u" using lowerhex_cases[of a] by auto
  with Cons show ?case by simp
qed

lemma hexfix_digits16:
  "list_all lowerhex s \<Longrightarrow> hexfix (length s) (digits16 0 s) = s"
proof (induction s rule: rev_induct)
  case Nil then show ?case by simp
next
  case (snoc c s)
  then obtain v where v: "hexval c = Some v" "v < 16" "hexdigit v = c"
    using lowerhex_cases[of c] by auto
  with snoc show ?case by (simp add: digits16_snoc)
qed

lemma digits16_bound:
  "list_all lowerhex s \<Longrightarrow> digits16 0 s < 16 ^ length s"
proof (induction s rule: rev_induct)
  case Nil then show ?case by simp
next
  case (snoc c s)
  then obtain v where v: "hexval c = Some v" "v < 16"
    using lowerhex_cases[of c] by auto
  from snoc have "digits16 0 s < 16 ^ length s" by simp
  then have "16 * digits16 0 s + v < 16 * 16 ^ length s" using v(2) by linarith
  with snoc.prems v show ?case by (simp add: digits16_snoc)
qed

lemma hexfix_zero: "hexfix k 0 = replicate k CHR ''0''"
  by (induction k) (simp_all add: hexdigit_def replicate_append_same)

lemma length_toHex_pos: "0 < length (toHex n)"
  by (subst toHex.simps) simp

lemma padStart_snoc: "padStart (Suc k) c (xs @ [d]) = padStart k c xs @ [d]"
  by (simp add: padStart_def)

lemma padStart_toHex:
  "n < 16 ^ Suc k \<Longrightarrow> padStart (Suc k) CHR ''0'' (toHex n) = hexfix (Suc k) n"
proof (induction k arbitrary: n)
  case 0
  then show ?case by (simp add: toHex.simps[of n] padStart_def)
next
  case (Suc k)
  show ?case
  proof (cases "n < 16")
    case True
    then have "toHex n = [hexdigit n]" by (simp add: toHex.simps[of n])
    with True show ?thesis
      by (simp add: padStart_def hexfix_zero replicate_append_same)
  next
    case False
    then have t: "toHex n = toHex (n div 16) @ [hexdigit (n mod 16)]"
      by (simp add: toHex.simps[of n])
    from Suc.prems have "n div 16 < 16 ^ Suc k"
      by (simp add: less_mult_imp_div_less mult.commute)
    from Suc.IH[OF this] show ?thesis
      unfolding t padStart_snoc by simp
  qed
qed

lemma parseInt16_lowerhex:
  assumes "list_all lowerhex (c # d # r)"
  shows "parseInt16 (c # d # r) = Some (int (digits16 0 (c # d # r)))"
proof -
  from assms have c: "lowerhex c" and d: "lowerhex d" by simp_all
  from lowerhex_cases[OF c] obtain v where v: "hexval c = Some v" by blast
  show ?thesis
    using lowerhex_plain[OF c] lowerhex_plain[OF d] v
    by (simp add: parseInt16_def Let_def)
qed

lemma hex_roundtrip:
  assumes "length s = 8" "list_all lowerhex s"
  shows "padStart 8 CHR ''0'' (toHex (unat (toUint32 (parseInt16 s)))) = s"
proof -
  from assms(1) obtain c d r where s: "s = c # d # r"
    by (cases s; cases "tl s") auto
  have p: "parseInt16 s = Some (int (digits16 0 s))"
    using parseInt16_lowerhex assms(2) unfolding s by blast
  have b: "digits16 0 s < 16 ^ 8" using digits16_bound[OF assms(2)] assms(1) by simp
  then have u: "unat (toUint32 (parseInt16 s)) = digits16 0 s"
    by (simp add: p toUint32_def unat_of_nat take_bit_nat_eq_self_iff)
  have "padStart (Suc 7) CHR ''0'' (toHex (digits16 0 s)) = hexfix (Suc 7) (digits16 0 s)"
    by (rule padStart_toHex) (use b in simp)
  then show ?thesis using hexfix_digits16[OF assms(2)] assms(1) by (simp add: u)
qed

lemma pack_layout:
  "packBundle now bundle =
     Inr ([of_nat (length (encode (take 50 (case bundle_name bundle of None \<Rightarrow> [] | Some n \<Rightarrow> n))))]
          @ be32 (toUint32 (Some (int (now div 1000))))
          @ encode (take 50 (case bundle_name bundle of None \<Rightarrow> [] | Some n \<Rightarrow> n))
          @ concat (map be32 (map (\<lambda>e. toUint32 (parseInt16 (take 8 (entry_id e))))
                      (case servers bundle of None \<Rightarrow> [] | Some es \<Rightarrow> es))))"
  using length_encode_take50[of "case bundle_name bundle of None \<Rightarrow> [] | Some n \<Rightarrow> n"]
  by (simp add: packBundle_def packEncoded_def Let_def map_map comp_def)

lemma unpack_layout:
  assumes "length nameBytes \<le> 255"
  shows "unpackBundle ([of_nat (length nameBytes)] @ be32 t @ nameBytes @ concat (map be32 ws))
      = Inr \<lparr>u_nameBytes = nameBytes, u_sharedTime = t,
              u_servers = map (\<lambda>w. padStart 8 CHR ''0'' (toHex (unat w))) ws\<rparr>"
proof -
  from assms have n8: "unat (of_nat (length nameBytes) :: 8 word) = length nameBytes"
    by (simp add: unat_of_nat take_bit_nat_eq_self_iff)
  show ?thesis
    by (simp add: unpackBundle_def be32_def getUint32_be32 n8 Let_def read_servers_concat)
qed

lemma the_bundle_hex:
  "\<forall>e\<in>set (case servers the_bundle of None \<Rightarrow> [] | Some es \<Rightarrow> es). hex8_prefixed (entry_id e)"
  by (simp add: the_bundle_def hex8_prefixed_def lowerhex_def)

lemma ascii_unit:
  assumes "c < (0x80 :: 16 word)"
  shows "\<not> is_high_surrogate c" "\<not> is_low_surrogate c" "utf8 (scalar c) = [ucast c]"
proof -
  from assms have u: "unat c < 0x80" by (simp add: word_less_nat_alt)
  then show h: "\<not> is_high_surrogate c" and l: "\<not> is_low_surrogate c"
    by (simp_all add: is_high_surrogate_def is_low_surrogate_def word_le_nat_alt)
  from u h l show "utf8 (scalar c) = [ucast c]"
    by (simp add: scalar_def utf8_def)
qed

lemma encode_ascii: "\<forall>c\<in>set cs. c < 0x80 \<Longrightarrow> encode cs = map ucast cs"
proof (induction cs rule: encode.induct)
  case 1
  then show ?case by simp
next
  case (2 c)
  then show ?case by (simp add: ascii_unit(3))
next
  case (3 c d cs)
  from "3.prems" have c: "c < 0x80" and rest: "\<forall>x\<in>set (d # cs). x < 0x80" by simp_all
  have "encode (c # d # cs) = utf8 (scalar c) @ encode (d # cs)"
    using ascii_unit(1)[OF c] by simp
  also have "\<dots> = ucast c # map ucast (d # cs)"
    using "3.IH"(2)[OF _ rest] ascii_unit(1)[OF c] by (simp only: ascii_unit(3)[OF c]) simp
  finally show ?case by simp
qed

lemma encode_replicate_a: "encode (replicate n 0x61) = replicate n 0x61"
  by (simp add: encode_ascii map_replicate_const)

text \<open>
  C2, as amended. For every bundle whose server entries each have an id beginning with
  eight lowercase hexadecimal characters, and every clock reading, \<open>packBundle\<close> succeeds
  and \<open>unpackBundle\<close> of its result yields one server id per entry, equal to the first
  eight characters of that entry's id, and a timestamp equal to the Unix-seconds time of the
  encoding modulo \<open>2^32\<close>, which is that time itself while it is below \<open>2^32\<close>. No bound on
  the name is needed.
\<close>

theorem pack_unpack_roundtrip:
  assumes "\<forall>e\<in>set (case servers bundle of None \<Rightarrow> [] | Some es \<Rightarrow> es). hex8_prefixed (entry_id e)"
  shows "\<exists>bytes u. packBundle now bundle = Inr bytes \<and> unpackBundle bytes = Inr u
           \<and> u_servers u = map (\<lambda>e. take 8 (entry_id e))
                              (case servers bundle of None \<Rightarrow> [] | Some es \<Rightarrow> es)
           \<and> unat (u_sharedTime u) = (now div 1000) mod 2 ^ 32
           \<and> (now div 1000 < 2 ^ 32 \<longrightarrow> unat (u_sharedTime u) = now div 1000)"
proof -
  define es where "es = (case servers bundle of None \<Rightarrow> [] | Some es \<Rightarrow> es)"
  define nameBytes where
    "nameBytes = encode (take 50 (case bundle_name bundle of None \<Rightarrow> [] | Some n \<Rightarrow> n))"
  define ws where
    "ws = map (\<lambda>e. toUint32 (parseInt16 (take 8 (entry_id e)))) es"
  define t :: "32 word" where "t = toUint32 (Some (int (now div 1000)))"
  have len: "length nameBytes \<le> 255"
    unfolding nameBytes_def by (rule le_trans[OF length_encode_take50]) simp
  have pack: "packBundle now bundle =
      Inr ([of_nat (length nameBytes)] @ be32 t @ nameBytes @ concat (map be32 ws))"
    unfolding nameBytes_def ws_def t_def es_def by (rule pack_layout)
  have srv: "map (\<lambda>w. padStart 8 CHR ''0'' (toHex (unat w))) ws
             = map (\<lambda>e. take 8 (entry_id e)) es"
    unfolding ws_def map_map comp_def
  proof (rule map_cong[OF refl])
    fix e assume "e \<in> set es"
    with assms have "hex8_prefixed (entry_id e)" unfolding es_def by blast
    then show "padStart 8 CHR ''0'' (toHex (unat (toUint32 (parseInt16 (take 8 (entry_id e))))))
               = take 8 (entry_id e)"
      by (intro hex_roundtrip) (simp_all add: hex8_prefixed_def)
  qed
  have tm: "unat t = (now div 1000) mod 2 ^ 32"
    by (simp add: t_def toUint32_def unat_of_nat take_bit_eq_mod)
  show ?thesis
    using pack unpack_layout[OF len, of t ws] srv tm unfolding es_def[symmetric] by simp
qed

theorem pack_unpack_roundtrip_witness:
  "\<exists>bytes u. packBundle 1700000000123 the_bundle = Inr bytes \<and> unpackBundle bytes = Inr u
           \<and> u_servers u = [''a1b2c3d4''] \<and> unat (u_sharedTime u) = 1700000000"
  using pack_unpack_roundtrip[OF the_bundle_hex, of 1700000000123]
  by (simp add: the_bundle_def)

text \<open>At a clock reading of \<open>2^32\<close> seconds the decoded timestamp is 0.\<close>

theorem timestamp_wraps:
  "packBundle 4294967296000 the_bundle = Inr [1, 0, 0, 0, 0, 0x42, 0xa1, 0xb2, 0xc3, 0xd4]
   \<and> unpackBundle [1, 0, 0, 0, 0, 0x42, 0xa1, 0xb2, 0xc3, 0xd4]
        = Inr \<lparr>u_nameBytes = [0x42], u_sharedTime = 0, u_servers = [''a1b2c3d4'']\<rparr>
   \<and> (4294967296000 :: nat) div 1000 = 4294967296"
  by (simp add: pack_layout the_bundle_def be32_def toUint32_def parseInt16_def is_ws_char_def hexval_def
       scalar_def utf8_def is_high_surrogate_def is_low_surrogate_def
       unpackBundle_def getUint32_def padStart_def toHex.simps hexdigit_def Let_def)

text \<open>No bundle reaches the bound of 255 bytes: its name is cut to 50 UTF-16 code units
  before it is encoded, which gives at most 150 bytes, so \<open>packBundle\<close> returns a buffer of
  \<open>5 + nameLength + 4 * N\<close> bytes for every bundle.\<close>

lemma packBundle_never_too_long:
  "length (encode (take 50 (case bundle_name bundle of None \<Rightarrow> [] | Some n \<Rightarrow> n))) \<le> 150
   \<and> (\<exists>bytes. packBundle now bundle = Inr bytes
         \<and> length bytes = 5 + length (encode (take 50 (case bundle_name bundle of None \<Rightarrow> [] | Some n \<Rightarrow> n)))
              + 4 * length (case servers bundle of None \<Rightarrow> [] | Some es \<Rightarrow> es))"
  using length_encode_take50[of "case bundle_name bundle of None \<Rightarrow> [] | Some n \<Rightarrow> n"]
  by (simp add: pack_layout be32_def length_concat comp_def sum_list_triv)

lemma name_of_256_bytes_packs:
  "length (encode (replicate 256 0x61)) = 256
   \<and> packBundle 0 long_name_bundle = Inr (50 # 0 # 0 # 0 # 0 # replicate 50 0x61)"
  by (simp add: encode_replicate_a pack_layout long_name_bundle_def be32_def toUint32_def)

lemma name_of_255_bytes_packs:
  "length (encode (replicate 255 0x61)) = 255
   \<and> packBundle 0 name255_bundle = Inr (50 # 0 # 0 # 0 # 0 # replicate 50 0x61)"
  by (simp add: encode_replicate_a pack_layout name255_bundle_def be32_def toUint32_def)




section \<open>Properties of the decoding of a shared link\<close>

lemma unpackBundle_short: "length bs < 5 \<Longrightarrow> unpackBundle bs = Inl RangeError"
  by (auto simp: unpackBundle_def split: list.splits)

text \<open>A text whose first character cannot begin a JSON text is not JSON, so it is read
  as the binary layout.\<close>

lemma JSON_parse_bad_start: "\<not> json_start c \<Longrightarrow> JSON_parse (c # cs) = None"
  by (auto simp: JSON_parse_def json_start_def step_value_def is_digit_def)

lemma sharedBundle_bad_start:
  "\<not> json_start c \<Longrightarrow>
   sharedBundle (c # cs) = map_sum id FromBinary (unpackBundle (bytes_of (c # cs)))"
  by (simp add: sharedBundle_def JSON_parse_bad_start split: sum.splits)

lemma atob_legacy_token: "atob (map url_to_std legacy_token) = Inr legacy_payload"
  by (simp add: atob_def legacy_token_def url_to_std_def strip_padding_def b64val_def
      legacy_payload_def dq_def Let_def char_of_eq_iff)

lemma atob_packed_token: "atob (map url_to_std packed_token) = Inr (map char_of packed_bytes)"
  by (simp add: atob_def packed_token_def url_to_std_def strip_padding_def b64val_def
      packed_bytes_def Let_def)

lemma JSON_parse_legacy_payload:
  "JSON_parse legacy_payload =
     Some (JObj [(ustr ''name'', JStr (ustr ''Old Bundle'')),
                 (ustr ''servers'', JArr [JStr (ustr ''abc123'')])])"
  by (simp add: JSON_parse_def legacy_payload_def dq_def step_value_def step_after_def
      is_json_ws_def ustr_def)

lemma JSON_parse_packed_bytes: "JSON_parse (map char_of packed_bytes) = None"
  by (simp add: packed_bytes_def JSON_parse_bad_start json_start_def is_json_ws_def
      char_of_eq_iff)

lemma bytes_of_packed_bytes:
  "bytes_of (map char_of packed_bytes) =
     [0x01, 0x65, 0x53, 0xF1, 0x00, 0x42, 0xA1, 0xB2, 0xC3, 0xD4]"
  by (simp add: packed_bytes_def bytes_of_def)

lemma unpackBundle_packed_bytes:
  "unpackBundle [0x01, 0x65, 0x53, 0xF1, 0x00, 0x42, 0xA1, 0xB2, 0xC3, 0xD4] =
     Inr \<lparr>u_nameBytes = [0x42], u_sharedTime = 1700000000, u_servers = [''a1b2c3d4'']\<rparr>"
  by (simp add: unpackBundle_def getUint32_def padStart_def toHex.simps hexdigit_def Let_def)

text \<open>The token of a packed bundle (name \<open>B\<close>, one server, time 1700000000) is not JSON
  and decodes through the binary layout.\<close>

lemma packed_token_decodes_as_binary:
  "importFromURL packed_token =
     Inr (FromBinary \<lparr>u_nameBytes = [0x42], u_sharedTime = 1700000000,
                        u_servers = [''a1b2c3d4'']\<rparr>)"
  by (simp add: importFromURL_def atob_packed_token sharedBundle_def JSON_parse_packed_bytes
      bytes_of_packed_bytes unpackBundle_packed_bytes)

text \<open>
  C5, as amended. For every share token, \<open>importFromURL\<close> first gives the decoded text to
  \<open>JSON.parse\<close> and, when that succeeds, takes the JSON value, whatever the number of
  bytes; only when the text is not JSON are its bytes parsed per the binary layout, which
  raises \<open>RangeError\<close> when there are fewer than five.
\<close>

theorem importFromURL_json_first:
  "importFromURL encodedData =
     (case atob (map url_to_std encodedData) of
        Inl e \<Rightarrow> Inl e
      | Inr decoded \<Rightarrow>
          (case JSON_parse decoded of
             Some j \<Rightarrow> Inr (FromJson j)
           | None \<Rightarrow>
               if length decoded < 5 then Inl RangeError
               else map_sum id FromBinary (unpackBundle (bytes_of decoded))))"
  by (auto simp: importFromURL_def sharedBundle_def unpackBundle_short bytes_of_def
           split: sum.splits option.splits)

text \<open>The legacy token decodes to 42 bytes, which the binary layout would accept (a name
  of 37 bytes and no server); the result is the JSON object all the same.\<close>

theorem legacy_token_decodes_as_json:
  "atob (map url_to_std legacy_token) = Inr legacy_payload
   \<and> length legacy_payload = 42
   \<and> unpackBundle (bytes_of legacy_payload) =
       Inr \<lparr>u_nameBytes = bytes_of (drop 5 legacy_payload), u_sharedTime = 0x226E616D,
             u_servers = []\<rparr>
   \<and> importFromURL legacy_token =
       Inr (FromJson (JObj [(ustr ''name'', JStr (ustr ''Old Bundle'')),
                            (ustr ''servers'', JArr [JStr (ustr ''abc123'')])]))"
  by (simp add: importFromURL_def atob_legacy_token sharedBundle_def JSON_parse_legacy_payload)
     (simp add: legacy_payload_def dq_def bytes_of_def unpackBundle_def getUint32_def Let_def)

end
